theory Spec2Isabelle
  imports Complex_Main "HOL-Library.List_Lexorder" "HOL-Library.Char_ord" "HOL-Library.AList"
begin

section \<open>Ledger record model (src/src/types/index.ts)\<close>

text \<open>
  The interfaces of \<^verbatim>\<open>types/index.ts\<close> become records with the source's field names.
  Several interfaces share field names (\<^verbatim>\<open>id\<close>, \<^verbatim>\<open>user_id\<close>, \<^verbatim>\<open>created_at\<close>, ...), so
  every selector is written qualified by its record: \<open>debt.id\<close>, \<open>debt_payment.user_id\<close>.
  A TypeScript \<^verbatim>\<open>number\<close> is modelled as an exact \<open>real\<close>: rounding and the infinities of
  IEEE doubles are outside the model, and the one place where the code tests for NaN
  (the result of \<^verbatim>\<open>parseFloat\<close>) has \<open>None\<close> for NaN. An optional field is an \<open>option\<close>.
\<close>

datatype transaction_type = Income | Expense

record transaction =
  id :: string
  user_id :: string
  type :: transaction_type
  category :: string
  amount_cad :: real
  amount_inr :: real
  exchange_rate :: real
  description :: string
  date :: string
  created_at :: string
  updated_at :: string

datatype debt_type = Owe | Lent

record debt =
  id :: string
  user_id :: string
  type :: debt_type
  person_name :: string
  total_amount_cad :: real
  total_amount_inr :: real
  remaining_amount_cad :: real
  remaining_amount_inr :: real
  exchange_rate :: real
  purpose :: string
  due_date :: "string option"
  is_paid :: string
  priority_score :: real
  created_at :: string
  updated_at :: string

record debt_payment =
  id :: string
  debt_id :: string
  user_id :: string
  amount_cad :: real
  amount_inr :: real
  exchange_rate :: real
  payment_date :: string
  "notes" :: "string option"
  created_at :: string

datatype currency = CAD | INR

datatype theme = Light | Dark

record user_preferences =
  id :: string
  user_id :: string
  default_currency :: currency
  theme :: theme
  exchange_rate_cad_to_inr :: real
  created_at :: string
  updated_at :: string

datatype access_level = View

record family_access =
  id :: string
  owner_user_id :: string
  member_email :: string
  access_level :: access_level
  is_active :: string
  created_at :: string
  updated_at :: string

text \<open>The signed-in user of the session context (\<^verbatim>\<open>interface User\<close> of the auth context).\<close>

record user =
  id :: string
  email :: string
  displayName :: "string option"

section \<open>Environment of a handler\<close>

text \<open>
  What a handler reads from outside its component: the session (\<^verbatim>\<open>useAuth()\<close>), the clock,
  the random generator, and the host language's built-in conversions, which are taken as
  parameters. One clock reading serves a whole handler run.
\<close>

record env =
  user :: "user option"
  now_ms :: int
  now_iso :: string
  random36 :: string
  parseFloat :: "string \<Rightarrow> real option"
  date_getTime :: "string \<Rightarrow> int option"
  toFixed :: "real \<Rightarrow> nat \<Rightarrow> string"
  toString :: "real \<Rightarrow> string"
  confirm :: "string \<Rightarrow> bool"

text \<open>
  \<open>confirm msg\<close> is the user's answer to the prompt \<^verbatim>\<open>window.confirm(msg)\<close>.
  \<open>now_ms\<close> is \<^verbatim>\<open>Date.now()\<close> (and \<^verbatim>\<open>new Date().getTime()\<close>), \<open>now_iso\<close> is
  \<^verbatim>\<open>new Date().toISOString()\<close>, \<open>random36\<close> is \<^verbatim>\<open>Math.random().toString(36)\<close>,
  \<open>date_getTime s\<close> is \<^verbatim>\<open>new Date(s).getTime()\<close> with \<open>None\<close> for the NaN of an invalid date.
  \<open>parseFloat s\<close> is \<open>None\<close> for NaN. Nothing is assumed about the conversions: the
  properties below hold for every \<open>parseFloat\<close>, so where one speaks of an accepted amount
  it also says that the text of the field is not empty, as the handlers test.
\<close>

fun dec :: "nat \<Rightarrow> string" where
  "dec n = (if n < 10 then [''0123456789'' ! n] else dec (n div 10) @ [''0123456789'' ! (n mod 10)])"

declare dec.simps [simp del]

definition show_int :: "int \<Rightarrow> string" where
  "show_int i = (if i < 0 then CHR ''-'' # dec (nat (- i)) else dec (nat i))"

definition substr :: "string \<Rightarrow> nat \<Rightarrow> nat \<Rightarrow> string" where
  "substr s start len = take len (drop start s)"

text \<open>The id template \<^verbatim>\<open>`${prefix}_${Date.now()}_${Math.random().toString(36).substr(2, 9)}`\<close>.\<close>

definition fresh_id :: "string \<Rightarrow> env \<Rightarrow> string" where
  "fresh_id prefix e = prefix @ ''_'' @ show_int (now_ms e) @ ''_'' @ substr (random36 e) 2 9"

section \<open>Remote Data Gateway and observable effects\<close>

datatype request =
    Debts_list string
  | Debts_create debt
  | Debts_update string debt
  | Debts_delete string
  | Debt_payments_create debt_payment
  | User_preferences_list string
  | User_preferences_create user_preferences
  | Family_access_list string
  | Family_access_create family_access
  | Family_access_delete string

datatype variant = Default | Destructive

datatype effect =
    Call request
  | Toast variant string
  | Console_error string
  | Confirm string bool

text \<open>
  The world outside the components: the gateway's collections, the outcome of the
  remote calls still to come (\<open>faults\<close>: \<open>True\<close> makes the next call throw; an exhausted
  list means success), and the trace of everything a handler did that is visible
  outside it, in order: remote calls issued, toasts, console errors, and confirmation
  prompts with the user's answer.
\<close>

record world =
  debts_tbl :: "debt list"
  debt_payments_tbl :: "debt_payment list"
  user_preferences_tbl :: "user_preferences list"
  family_access_tbl :: "family_access list"
  faults :: "bool list"
  trace :: "effect list"

definition emit :: "effect \<Rightarrow> world \<Rightarrow> world" where
  "emit ev w = w\<lparr>trace := trace w @ [ev]\<rparr>"

definition toast :: "variant \<Rightarrow> string \<Rightarrow> world \<Rightarrow> world" where
  "toast v msg w = emit (Toast v msg) w"

definition console_error :: "string \<Rightarrow> world \<Rightarrow> world" where
  "console_error msg w = emit (Console_error msg) w"

text \<open>
  Modelled from the spec: the Remote Data Gateway (the hosted backend's client SDK,
  \<^verbatim>\<open>blink.db.<collection>\<close>, which is not part of the sources). The spec gives it
  \<^verbatim>\<open>list(where, orderBy, limit)\<close>, \<^verbatim>\<open>create(record)\<close>, \<^verbatim>\<open>update(id, partialRecord)\<close> and
  \<^verbatim>\<open>delete(id)\<close> over collections filtered by equality, and says that any call may fail
  with an exception. \<open>remote\<close> issues a call: it is recorded in the trace and consumes one
  scheduled outcome; the result says whether the call succeeded.
\<close>

definition remote :: "request \<Rightarrow> world \<Rightarrow> bool \<times> world" where
  "remote rq w =
     (case faults w of
        [] \<Rightarrow> (True, emit (Call rq) w)
      | f # fs \<Rightarrow> (\<not> f, emit (Call rq) (w\<lparr>faults := fs\<rparr>)))"

text \<open>Whether the next remote call will succeed.\<close>

definition first_call_ok :: "world \<Rightarrow> bool" where
  "first_call_ok w = (case faults w of [] \<Rightarrow> True | f # fs \<Rightarrow> \<not> f)"

text \<open>
  Modelled from the spec: \<^verbatim>\<open>blink.db.debts.list({ where: { user_id }, orderBy: { created_at:
  'desc' } })\<close>, the debts of the user, latest first; \<open>None\<close> when the call throws.
\<close>

definition db_debts_list :: "string \<Rightarrow> world \<Rightarrow> debt list option \<times> world" where
  "db_debts_list uid w =
     (case remote (Debts_list uid) w of
        (True, w1) \<Rightarrow>
          (Some (rev (sort_key debt.created_at (filter (\<lambda>d. debt.user_id d = uid) (debts_tbl w1)))), w1)
      | (False, w1) \<Rightarrow> (None, w1))"

text \<open>Modelled from the spec: \<^verbatim>\<open>blink.db.debts.create(record)\<close> appends the record.\<close>

definition db_debts_create :: "debt \<Rightarrow> world \<Rightarrow> bool \<times> world" where
  "db_debts_create d w =
     (case remote (Debts_create d) w of
        (True, w1) \<Rightarrow> (True, w1\<lparr>debts_tbl := debts_tbl w1 @ [d]\<rparr>)
      | (False, w1) \<Rightarrow> (False, w1))"

text \<open>
  Modelled from the spec: \<^verbatim>\<open>blink.db.debts.update(id, record)\<close>. The handler passes a whole
  record, which replaces the stored record of that id.
\<close>

definition db_debts_update :: "string \<Rightarrow> debt \<Rightarrow> world \<Rightarrow> bool \<times> world" where
  "db_debts_update i d w =
     (case remote (Debts_update i d) w of
        (True, w1) \<Rightarrow> (True, w1\<lparr>debts_tbl := map (\<lambda>x. if debt.id x = i then d else x) (debts_tbl w1)\<rparr>)
      | (False, w1) \<Rightarrow> (False, w1))"

text \<open>Modelled from the spec: \<^verbatim>\<open>blink.db.debts.delete(id)\<close> removes the record of that id.\<close>

definition db_debts_delete :: "string \<Rightarrow> world \<Rightarrow> bool \<times> world" where
  "db_debts_delete i w =
     (case remote (Debts_delete i) w of
        (True, w1) \<Rightarrow> (True, w1\<lparr>debts_tbl := filter (\<lambda>x. debt.id x \<noteq> i) (debts_tbl w1)\<rparr>)
      | (False, w1) \<Rightarrow> (False, w1))"

text \<open>Modelled from the spec: \<^verbatim>\<open>blink.db.debt_payments.create(record)\<close> appends the record.\<close>

definition db_debt_payments_create :: "debt_payment \<Rightarrow> world \<Rightarrow> bool \<times> world" where
  "db_debt_payments_create p w =
     (case remote (Debt_payments_create p) w of
        (True, w1) \<Rightarrow> (True, w1\<lparr>debt_payments_tbl := debt_payments_tbl w1 @ [p]\<rparr>)
      | (False, w1) \<Rightarrow> (False, w1))"

section \<open>Debt manager (src/src/components/DebtManager.tsx)\<close>

record new_debt_form =
  type :: debt_type
  person_name :: string
  amount :: string
  purpose :: string
  due_date :: string

record payment_form =
  amount :: string
  "notes" :: string

record debt_manager =
  debts :: "debt list"
  loading :: bool
  addDialogOpen :: bool
  paymentDialogOpen :: bool
  selectedDebt :: "debt option"
  newDebt :: new_debt_form
  payment :: payment_form

text \<open>\<^verbatim>\<open>const [exchangeRate] = useState(61.5)\<close>: the state has no setter in use.\<close>

definition exchangeRate :: real where
  "exchangeRate = 61.5"

text \<open>The rupee sign U+20B9 of the source's template literal, as its UTF-8 bytes.\<close>

definition rupee_sign :: string where
  "rupee_sign = [char_of (226::nat), char_of (130::nat), char_of (185::nat)]"

definition formatCurrency :: "env \<Rightarrow> real \<Rightarrow> currency \<Rightarrow> string" where
  "formatCurrency e a c =
     (case c of
        CAD \<Rightarrow> ''CA$'' @ toFixed e a 2
      | INR \<Rightarrow> rupee_sign @ toFixed e (a * exchangeRate) 0)"

text \<open>
  \<open>loadDebts\<close>: \<^verbatim>\<open>user!.id\<close> on a missing user throws inside the \<^verbatim>\<open>try\<close>, so that case
  takes the \<^verbatim>\<open>catch\<close> branch, as a failed remote call does. The handlers below start
  \<open>loadDebts\<close> as their last action without awaiting it; the model runs it to its end there.
\<close>

definition loadDebts_failed :: "debt_manager \<Rightarrow> world \<Rightarrow> debt_manager \<times> world" where
  "loadDebts_failed st w =
     (st\<lparr>loading := False\<rparr>,
      toast Destructive ''Failed to load debts'' (console_error ''Error loading debts:'' w))"

definition loadDebts :: "env \<Rightarrow> debt_manager \<Rightarrow> world \<Rightarrow> debt_manager \<times> world" where
  "loadDebts e st w =
     (case env.user e of
        None \<Rightarrow> loadDebts_failed st w
      | Some u \<Rightarrow>
          (case db_debts_list (user.id u) w of
             (Some allDebts, w1) \<Rightarrow> (st\<lparr>debts := allDebts, loading := False\<rparr>, w1)
           | (None, w1) \<Rightarrow> loadDebts_failed st w1))"

text \<open>The object literal of \<^verbatim>\<open>handleAddDebt\<close> (lines 111 to 127).\<close>

definition new_debt_record :: "env \<Rightarrow> user \<Rightarrow> new_debt_form \<Rightarrow> real \<Rightarrow> debt" where
  "new_debt_record e u f amountCad =
     \<lparr> debt.id = fresh_id ''debt'' e,
       debt.user_id = user.id u,
       debt.type = new_debt_form.type f,
       debt.person_name = new_debt_form.person_name f,
       debt.total_amount_cad = amountCad,
       debt.total_amount_inr = amountCad * exchangeRate,
       debt.remaining_amount_cad = amountCad,
       debt.remaining_amount_inr = amountCad * exchangeRate,
       debt.exchange_rate = exchangeRate,
       debt.purpose = new_debt_form.purpose f,
       debt.due_date = (if new_debt_form.due_date f = [] then None else Some (new_debt_form.due_date f)),
       debt.is_paid = ''0'',
       debt.priority_score = 0,
       debt.created_at = now_iso e,
       debt.updated_at = now_iso e \<rparr>"

definition empty_new_debt :: new_debt_form where
  "empty_new_debt =
     \<lparr> new_debt_form.type = Owe, new_debt_form.person_name = [], new_debt_form.amount = [],
       new_debt_form.purpose = [], new_debt_form.due_date = [] \<rparr>"

definition addDebt_failed :: "debt_manager \<Rightarrow> world \<Rightarrow> debt_manager \<times> world" where
  "addDebt_failed st w =
     (st, toast Destructive ''Failed to add debt'' (console_error ''Error adding debt:'' w))"

definition handleAddDebt :: "env \<Rightarrow> debt_manager \<Rightarrow> world \<Rightarrow> debt_manager \<times> world" where
  "handleAddDebt e st w =
     (let f = newDebt st in
      if new_debt_form.person_name f = [] \<or> new_debt_form.amount f = [] \<or> new_debt_form.purpose f = []
      then (st, toast Destructive ''Please fill in all required fields'' w)
      else
        (case parseFloat e (new_debt_form.amount f) of
           None \<Rightarrow> (st, toast Destructive ''Please enter a valid amount'' w)
         | Some amountCad \<Rightarrow>
             if amountCad \<le> 0 then (st, toast Destructive ''Please enter a valid amount'' w)
             else
               (case env.user e of
                  None \<Rightarrow> addDebt_failed st w
                | Some u \<Rightarrow>
                    (case db_debts_create (new_debt_record e u f amountCad) w of
                       (False, w1) \<Rightarrow> addDebt_failed st w1
                     | (True, w1) \<Rightarrow>
                         loadDebts e
                           (st\<lparr>newDebt := empty_new_debt, addDialogOpen := False\<rparr>)
                           (toast Default
                              ((if new_debt_form.type f = Owe then ''Debt'' else ''Loan'') @ '' added successfully!'')
                              w1)))))"

text \<open>The two object literals of \<^verbatim>\<open>handlePayment\<close> (lines 184 to 194 and 199 to 206).\<close>

definition payment_record :: "env \<Rightarrow> user \<Rightarrow> debt \<Rightarrow> real \<Rightarrow> payment_form \<Rightarrow> debt_payment" where
  "payment_record e u sel paymentAmount f =
     \<lparr> debt_payment.id = fresh_id ''payment'' e,
       debt_payment.debt_id = debt.id sel,
       debt_payment.user_id = user.id u,
       debt_payment.amount_cad = paymentAmount,
       debt_payment.amount_inr = paymentAmount * exchangeRate,
       debt_payment.exchange_rate = exchangeRate,
       debt_payment.payment_date = takeWhile (\<lambda>c. c \<noteq> CHR ''T'') (now_iso e),
       debt_payment.notes = (if payment_form.notes f = [] then None else Some (payment_form.notes f)),
       debt_payment.created_at = now_iso e \<rparr>"

definition updated_debt :: "env \<Rightarrow> debt \<Rightarrow> real \<Rightarrow> debt" where
  "updated_debt e sel paymentAmount =
     (let newRemainingAmount = debt.remaining_amount_cad sel - paymentAmount in
      sel\<lparr> debt.remaining_amount_cad := newRemainingAmount,
           debt.remaining_amount_inr := newRemainingAmount * exchangeRate,
           debt.is_paid := (if newRemainingAmount \<le> 0 then ''1'' else ''0''),
           debt.updated_at := now_iso e \<rparr>)"

definition empty_payment :: payment_form where
  "empty_payment = \<lparr> payment_form.amount = [], payment_form.notes = [] \<rparr>"

definition payment_failed :: "debt_manager \<Rightarrow> world \<Rightarrow> debt_manager \<times> world" where
  "payment_failed st w =
     (st, toast Destructive ''Failed to record payment'' (console_error ''Error recording payment:'' w))"

definition handlePayment :: "env \<Rightarrow> debt_manager \<Rightarrow> world \<Rightarrow> debt_manager \<times> world" where
  "handlePayment e st w =
     (case selectedDebt st of
        None \<Rightarrow> (st, toast Destructive ''Please enter payment amount'' w)
      | Some sel \<Rightarrow>
          if payment_form.amount (payment st) = []
          then (st, toast Destructive ''Please enter payment amount'' w)
          else
            (case parseFloat e (payment_form.amount (payment st)) of
               None \<Rightarrow> (st, toast Destructive ''Please enter a valid payment amount'' w)
             | Some paymentAmount \<Rightarrow>
                 if paymentAmount \<le> 0
                 then (st, toast Destructive ''Please enter a valid payment amount'' w)
                 else if paymentAmount > debt.remaining_amount_cad sel
                 then (st, toast Destructive ''Payment amount cannot exceed remaining debt'' w)
                 else
                   (case env.user e of
                      None \<Rightarrow> payment_failed st w
                    | Some u \<Rightarrow>
                        (case db_debt_payments_create (payment_record e u sel paymentAmount (payment st)) w of
                           (False, w1) \<Rightarrow> payment_failed st w1
                         | (True, w1) \<Rightarrow>
                             (case db_debts_update (debt.id sel) (updated_debt e sel paymentAmount) w1 of
                                (False, w2) \<Rightarrow> payment_failed st w2
                              | (True, w2) \<Rightarrow>
                                  loadDebts e
                                    (st\<lparr>payment := empty_payment, paymentDialogOpen := False,
                                        selectedDebt := None\<rparr>)
                                    (toast Default
                                       (''Payment of '' @ formatCurrency e paymentAmount CAD
                                          @ '' recorded successfully!'')
                                       w2))))))"

definition deleteDebt :: "env \<Rightarrow> string \<Rightarrow> debt_manager \<Rightarrow> world \<Rightarrow> debt_manager \<times> world" where
  "deleteDebt e debtId st w =
     (case db_debts_delete debtId w of
        (True, w1) \<Rightarrow> loadDebts e st (toast Default ''Debt deleted successfully'' w1)
      | (False, w1) \<Rightarrow>
          (st, toast Destructive ''Failed to delete debt'' (console_error ''Error deleting debt:'' w1)))"

datatype priority = Overdue | Urgent | Medium | Low

definition getDaysUntilDue :: "env \<Rightarrow> string \<Rightarrow> int option" where
  "getDaysUntilDue e dueDate =
     (case date_getTime e dueDate of
        None \<Rightarrow> None
      | Some due \<Rightarrow> Some \<lceil>real_of_int (due - now_ms e) / (1000 * 60 * 60 * 24)\<rceil>)"

text \<open>
  \<^verbatim>\<open>!debt.due_date\<close> holds for a missing and for an empty due date. A NaN day count
  (invalid date) fails every comparison and falls through to \<^verbatim>\<open>'low'\<close>.
\<close>

definition getPriorityLevel :: "env \<Rightarrow> debt \<Rightarrow> priority" where
  "getPriorityLevel e d =
     (case debt.due_date d of
        None \<Rightarrow> Low
      | Some s \<Rightarrow>
          if s = [] then Low
          else
            (case getDaysUntilDue e s of
               None \<Rightarrow> Low
             | Some daysUntilDue \<Rightarrow>
                 if daysUntilDue < 0 then Overdue
                 else if daysUntilDue \<le> 7 then Urgent
                 else if daysUntilDue \<le> 30 then Medium
                 else Low))"


section \<open>Analytics (src/src/components/Analytics.tsx)\<close>

record monthly_data =
  month :: string
  income :: real
  expenses :: real
  net :: real

record category_data =
  category :: string
  amount :: real
  percentage :: real
  transactions :: nat

text \<open>
  The values of the two \<^verbatim>\<open>Map\<close>s. A JavaScript \<^verbatim>\<open>Map\<close> iterates in the order in which
  its keys were first inserted, so it is an association list: \<open>map_of\<close> is \<^verbatim>\<open>get\<close> and
  \<open>AList.update\<close> is \<^verbatim>\<open>set\<close> (the value is replaced in place, a new key goes to the end).
\<close>

record month_acc =
  income :: real
  expenses :: real

record category_acc =
  amount :: real
  count :: nat

text \<open>The body of the \<^verbatim>\<open>forEach\<close> of \<^verbatim>\<open>getMonthlyData\<close>; \<^verbatim>\<open>substring(0, 7)\<close> is \<open>take 7\<close>.\<close>

definition monthly_step :: "transaction \<Rightarrow> (string \<times> month_acc) list \<Rightarrow> (string \<times> month_acc) list" where
  "monthly_step t monthlyMap =
     (let monthKey = take 7 (transaction.date t);
          existing = (case map_of monthlyMap monthKey of
                        Some x \<Rightarrow> x
                      | None \<Rightarrow> \<lparr> month_acc.income = 0, month_acc.expenses = 0 \<rparr>);
          existing' = (if transaction.type t = Income
                       then existing\<lparr> month_acc.income := month_acc.income existing + transaction.amount_cad t \<rparr>
                       else existing\<lparr> month_acc.expenses := month_acc.expenses existing + transaction.amount_cad t \<rparr>)
      in AList.update monthKey existing' monthlyMap)"

text \<open>
  \<^verbatim>\<open>localeCompare\<close> is modelled as the lexicographic order on strings, with which it agrees
  on keys made of digits and hyphens; \<^verbatim>\<open>Array.prototype.sort\<close> is stable, as \<open>sort_key\<close> is.
\<close>

definition getMonthlyData :: "transaction list \<Rightarrow> monthly_data list" where
  "getMonthlyData txs =
     sort_key monthly_data.month
       (map (\<lambda>(month, data).
               \<lparr> monthly_data.month = month,
                 monthly_data.income = month_acc.income data,
                 monthly_data.expenses = month_acc.expenses data,
                 monthly_data.net = month_acc.income data - month_acc.expenses data \<rparr>)
            (fold monthly_step txs []))"

definition category_step :: "transaction \<Rightarrow> (string \<times> category_acc) list \<Rightarrow> (string \<times> category_acc) list" where
  "category_step t categoryMap =
     (let existing = (case map_of categoryMap (transaction.category t) of
                        Some x \<Rightarrow> x
                      | None \<Rightarrow> \<lparr> category_acc.amount = 0, category_acc.count = 0 \<rparr>)
      in AList.update (transaction.category t)
           (existing\<lparr> category_acc.amount := category_acc.amount existing + transaction.amount_cad t,
                      category_acc.count := category_acc.count existing + 1 \<rparr>)
           categoryMap)"

text \<open>
  The comparator \<^verbatim>\<open>(a, b) => b.amount - a.amount\<close> sorts descending by amount. The
  component's \<^verbatim>\<open>transactions\<close> state, which both functions read, is the parameter \<open>txs\<close>.
\<close>

definition getCategoryData :: "transaction list \<Rightarrow> transaction_type \<Rightarrow> category_data list" where
  "getCategoryData txs ty =
     (let typeTransactions = filter (\<lambda>t. transaction.type t = ty) txs;
          totalAmount = foldl (\<lambda>sum t. sum + transaction.amount_cad t) 0 typeTransactions;
          categoryMap = fold category_step typeTransactions []
      in sort_key (\<lambda>c. - category_data.amount c)
           (map (\<lambda>(category, data).
                   \<lparr> category_data.category = category,
                     category_data.amount = category_acc.amount data,
                     category_data.percentage =
                       (if totalAmount > 0 then (category_acc.amount data / totalAmount) * 100 else 0),
                     category_data.transactions = category_acc.count data \<rparr>)
                categoryMap))"

text \<open>
  The sums the aggregation is specified by: the amounts of the transactions of a month
  (the first seven characters of the date) and type; the total of a type; the amounts and
  the number of the transactions of a type and category.
\<close>

definition month_sum :: "transaction list \<Rightarrow> string \<Rightarrow> transaction_type \<Rightarrow> real" where
  "month_sum txs k ty =
     sum_list (map transaction.amount_cad
       (filter (\<lambda>t. take 7 (transaction.date t) = k \<and> transaction.type t = ty) txs))"

definition total_of_type :: "transaction list \<Rightarrow> transaction_type \<Rightarrow> real" where
  "total_of_type txs ty =
     sum_list (map transaction.amount_cad (filter (\<lambda>t. transaction.type t = ty) txs))"

definition category_sum :: "transaction list \<Rightarrow> transaction_type \<Rightarrow> string \<Rightarrow> real" where
  "category_sum txs ty c =
     sum_list (map transaction.amount_cad
       (filter (\<lambda>t. transaction.type t = ty \<and> transaction.category t = c) txs))"

definition category_count :: "transaction list \<Rightarrow> transaction_type \<Rightarrow> string \<Rightarrow> nat" where
  "category_count txs ty c =
     length (filter (\<lambda>t. transaction.type t = ty \<and> transaction.category t = c) txs)"

section \<open>Settings (src/src/components/Settings.tsx)\<close>

text \<open>
  The state of the component. Its \<^verbatim>\<open>exchangeRate\<close> is the text of the rate input; it is
  named \<open>exchangeRate'\<close> here, apart from the numeric constant of the debt manager.
\<close>

record settings =
  loading :: bool
  isDark :: bool
  preferences :: "user_preferences option"
  exchangeRate' :: string
  isUpdatingRate :: bool

text \<open>
  Modelled from the spec: \<^verbatim>\<open>blink.db.user_preferences.list({ where: { user_id }, limit })\<close>,
  the first \<open>limit\<close> preferences records of the user; \<open>None\<close> when the call throws.
\<close>

definition db_user_preferences_list :: "string \<Rightarrow> nat \<Rightarrow> world \<Rightarrow> user_preferences list option \<times> world" where
  "db_user_preferences_list uid limit w =
     (case remote (User_preferences_list uid) w of
        (True, w1) \<Rightarrow>
          (Some (take limit (filter (\<lambda>p. user_preferences.user_id p = uid) (user_preferences_tbl w1))), w1)
      | (False, w1) \<Rightarrow> (None, w1))"

text \<open>
  Modelled from the spec: \<^verbatim>\<open>blink.db.user_preferences.create(record)\<close> appends the record
  and resolves to the record it stored; \<open>None\<close> when the call throws.
\<close>

definition db_user_preferences_create :: "user_preferences \<Rightarrow> world \<Rightarrow> user_preferences option \<times> world" where
  "db_user_preferences_create p w =
     (case remote (User_preferences_create p) w of
        (True, w1) \<Rightarrow> (Some p, w1\<lparr>user_preferences_tbl := user_preferences_tbl w1 @ [p]\<rparr>)
      | (False, w1) \<Rightarrow> (None, w1))"

definition defaultPrefs :: "env \<Rightarrow> user \<Rightarrow> user_preferences" where
  "defaultPrefs e u =
     \<lparr> user_preferences.id = fresh_id ''pref'' e,
       user_preferences.user_id = user.id u,
       user_preferences.default_currency = CAD,
       user_preferences.theme = Light,
       user_preferences.exchange_rate_cad_to_inr = 61.5,
       user_preferences.created_at = now_iso e,
       user_preferences.updated_at = now_iso e \<rparr>"

definition loadPreferences_failed :: "settings \<Rightarrow> world \<Rightarrow> settings \<times> world" where
  "loadPreferences_failed st w = (st, console_error ''Error loading preferences:'' w)"

definition loadPreferences :: "env \<Rightarrow> settings \<Rightarrow> world \<Rightarrow> settings \<times> world" where
  "loadPreferences e st w =
     (case env.user e of
        None \<Rightarrow> loadPreferences_failed st w
      | Some u \<Rightarrow>
          (case db_user_preferences_list (user.id u) 1 w of
             (None, w1) \<Rightarrow> loadPreferences_failed st w1
           | (Some userPrefs, w1) \<Rightarrow>
               (case userPrefs of
                  p # _ \<Rightarrow>
                    (st\<lparr>preferences := Some p,
                        exchangeRate' := toString e (user_preferences.exchange_rate_cad_to_inr p)\<rparr>, w1)
                | [] \<Rightarrow>
                    (case db_user_preferences_create (defaultPrefs e u) w1 of
                       (None, w2) \<Rightarrow> loadPreferences_failed st w2
                     | (Some created, w2) \<Rightarrow> (st\<lparr>preferences := Some created\<rparr>, w2)))))"

section \<open>Family access (src/src/components/FamilyAccess.tsx)\<close>

record family_access_page =
  familyMembers :: "family_access list"
  loading :: bool
  addDialogOpen :: bool
  newMemberEmail :: string

text \<open>
  Modelled from the spec: \<^verbatim>\<open>blink.db.family_access.list({ where: { owner_user_id }, orderBy:
  { created_at: 'desc' } })\<close>, the grants of the owner, latest first.
\<close>

definition db_family_access_list :: "string \<Rightarrow> world \<Rightarrow> family_access list option \<times> world" where
  "db_family_access_list uid w =
     (case remote (Family_access_list uid) w of
        (True, w1) \<Rightarrow>
          (Some (rev (sort_key family_access.created_at
                   (filter (\<lambda>m. family_access.owner_user_id m = uid) (family_access_tbl w1)))), w1)
      | (False, w1) \<Rightarrow> (None, w1))"

text \<open>Modelled from the spec: \<^verbatim>\<open>blink.db.family_access.create(record)\<close> appends the record.\<close>

definition db_family_access_create :: "family_access \<Rightarrow> world \<Rightarrow> bool \<times> world" where
  "db_family_access_create m w =
     (case remote (Family_access_create m) w of
        (True, w1) \<Rightarrow> (True, w1\<lparr>family_access_tbl := family_access_tbl w1 @ [m]\<rparr>)
      | (False, w1) \<Rightarrow> (False, w1))"

text \<open>Modelled from the spec: \<^verbatim>\<open>blink.db.family_access.delete(id)\<close> removes the record of that id.\<close>

definition db_family_access_delete :: "string \<Rightarrow> world \<Rightarrow> bool \<times> world" where
  "db_family_access_delete i w =
     (case remote (Family_access_delete i) w of
        (True, w1) \<Rightarrow>
          (True, w1\<lparr>family_access_tbl := filter (\<lambda>x. family_access.id x \<noteq> i) (family_access_tbl w1)\<rparr>)
      | (False, w1) \<Rightarrow> (False, w1))"

definition loadFamilyMembers_failed :: "family_access_page \<Rightarrow> world \<Rightarrow> family_access_page \<times> world" where
  "loadFamilyMembers_failed st w =
     (st\<lparr>family_access_page.loading := False\<rparr>,
      toast Destructive ''Failed to load family members'' (console_error ''Error loading family members:'' w))"

definition loadFamilyMembers :: "env \<Rightarrow> family_access_page \<Rightarrow> world \<Rightarrow> family_access_page \<times> world" where
  "loadFamilyMembers e st w =
     (case env.user e of
        None \<Rightarrow> loadFamilyMembers_failed st w
      | Some u \<Rightarrow>
          (case db_family_access_list (user.id u) w of
             (Some members, w1) \<Rightarrow>
               (st\<lparr>familyMembers := members, family_access_page.loading := False\<rparr>, w1)
           | (None, w1) \<Rightarrow> loadFamilyMembers_failed st w1))"

definition new_family_member :: "env \<Rightarrow> user \<Rightarrow> string \<Rightarrow> family_access" where
  "new_family_member e u memberEmail =
     \<lparr> family_access.id = fresh_id ''family'' e,
       family_access.owner_user_id = user.id u,
       family_access.member_email = memberEmail,
       family_access.access_level = View,
       family_access.is_active = ''1'',
       family_access.created_at = now_iso e,
       family_access.updated_at = now_iso e \<rparr>"

definition addFamilyMember_failed :: "family_access_page \<Rightarrow> world \<Rightarrow> family_access_page \<times> world" where
  "addFamilyMember_failed st w =
     (st, toast Destructive ''Failed to add family member'' (console_error ''Error adding family member:'' w))"

text \<open>
  \<^verbatim>\<open>newMemberEmail === user?.email\<close> is false without a user; \<^verbatim>\<open>familyMembers.find\<close> is
  \<open>find\<close>, and its result is truthy exactly when it is a record.
\<close>

definition addFamilyMember :: "env \<Rightarrow> family_access_page \<Rightarrow> world \<Rightarrow> family_access_page \<times> world" where
  "addFamilyMember e st w =
     (if newMemberEmail st = [] \<or> CHR ''@'' \<notin> set (newMemberEmail st)
      then (st, toast Destructive ''Please enter a valid email address'' w)
      else if (case env.user e of None \<Rightarrow> False | Some u \<Rightarrow> newMemberEmail st = user.email u)
      then (st, toast Destructive ''You cannot add yourself as a family member'' w)
      else
        (case find (\<lambda>m. family_access.member_email m = newMemberEmail st) (familyMembers st) of
           Some existingMember \<Rightarrow>
             (st, toast Destructive ''This email is already added as a family member'' w)
         | None \<Rightarrow>
             (case env.user e of
                None \<Rightarrow> addFamilyMember_failed st w
              | Some u \<Rightarrow>
                  (case db_family_access_create (new_family_member e u (newMemberEmail st)) w of
                     (False, w1) \<Rightarrow> addFamilyMember_failed st w1
                   | (True, w1) \<Rightarrow>
                       loadFamilyMembers e
                         (st\<lparr>newMemberEmail := [], family_access_page.addDialogOpen := False\<rparr>)
                         (toast Default
                            ''Family member added successfully! They can now view your financial data.''
                            w1)))))"

definition removeFamilyMember ::
    "env \<Rightarrow> string \<Rightarrow> string \<Rightarrow> family_access_page \<Rightarrow> world \<Rightarrow> family_access_page \<times> world" where
  "removeFamilyMember e memberId memberEmail st w =
     (let msg = ''Are you sure you want to remove '' @ memberEmail @ '' from family access?'';
          w0 = emit (Confirm msg (confirm e msg)) w
      in if \<not> confirm e msg then (st, w0)
         else
           (case db_family_access_delete memberId w0 of
              (True, w1) \<Rightarrow> loadFamilyMembers e st (toast Default ''Family member removed successfully'' w1)
            | (False, w1) \<Rightarrow>
                (st, toast Destructive ''Failed to remove family member''
                       (console_error ''Error removing family member:'' w1))))"


section \<open>Observing a handler run\<close>

text \<open>What a handler added to the trace: the effects of the run from \<open>w\<close> to \<open>w'\<close>.\<close>

definition effects_since :: "world \<Rightarrow> world \<Rightarrow> effect list" where
  "effects_since w w' = drop (length (trace w)) (trace w')"

text \<open>The arguments of the \<^verbatim>\<open>debts.update\<close> and \<^verbatim>\<open>debts.create\<close> calls among some effects.\<close>

fun debt_updates :: "effect list \<Rightarrow> (string \<times> debt) list" where
  "debt_updates [] = []"
| "debt_updates (Call (Debts_update i d) # evs) = (i, d) # debt_updates evs"
| "debt_updates (ev # evs) = debt_updates evs"

fun debt_creates :: "effect list \<Rightarrow> debt list" where
  "debt_creates [] = []"
| "debt_creates (Call (Debts_create d) # evs) = d # debt_creates evs"
| "debt_creates (ev # evs) = debt_creates evs"

fun family_creates :: "effect list \<Rightarrow> family_access list" where
  "family_creates [] = []"
| "family_creates (Call (Family_access_create m) # evs) = m # family_creates evs"
| "family_creates (ev # evs) = family_creates evs"

fun preference_creates :: "effect list \<Rightarrow> user_preferences list" where
  "preference_creates [] = []"
| "preference_creates (Call (User_preferences_create p) # evs) = p # preference_creates evs"
| "preference_creates (ev # evs) = preference_creates evs"

text \<open>The remote calls that delete.\<close>

fun is_delete :: "request \<Rightarrow> bool" where
  "is_delete (Debts_delete i) = True"
| "is_delete (Family_access_delete i) = True"
| "is_delete rq = False"

text \<open>
  \<open>deletes_confirmed c evs\<close>: every delete call among \<open>evs\<close> comes after a confirmation
  prompt that the user answered with yes (\<open>c\<close> says whether one came before \<open>evs\<close>).
\<close>

fun deletes_confirmed :: "bool \<Rightarrow> effect list \<Rightarrow> bool" where
  "deletes_confirmed c [] = True"
| "deletes_confirmed c (Confirm msg answer # evs) = deletes_confirmed (c \<or> answer) evs"
| "deletes_confirmed c (Call rq # evs) = ((if is_delete rq then c else True) \<and> deletes_confirmed c evs)"
| "deletes_confirmed c (ev # evs) = deletes_confirmed c evs"

section \<open>The debt invariant and the reachable states of the debt manager\<close>

text \<open>
  The invariant of the data model: \<open>0 \<le> remaining \<le> total\<close>, and the paid flag (the string
  \<^verbatim>\<open>'1'\<close> for true, \<^verbatim>\<open>'0'\<close> for false) is true exactly when nothing remains.
\<close>

definition debt_invariant :: "debt \<Rightarrow> bool" where
  "debt_invariant d \<longleftrightarrow>
     0 \<le> debt.remaining_amount_cad d \<and>
     debt.remaining_amount_cad d \<le> debt.total_amount_cad d \<and>
     debt.is_paid d = (if debt.remaining_amount_cad d \<le> 0 then ''1'' else ''0'')"

text \<open>
  The debts a state of the page and the store hold: the gateway's collection, the list
  on the page and the debt selected for a payment.
\<close>

definition known_debts :: "debt_manager \<Rightarrow> world \<Rightarrow> debt set" where
  "known_debts st w = set (debts_tbl w) \<union> set (debts st) \<union> set_option (selectedDebt st)"

text \<open>The initial values of the component's \<^verbatim>\<open>useState\<close> hooks.\<close>

definition initial_debt_manager :: debt_manager where
  "initial_debt_manager =
     \<lparr> debts = [], debt_manager.loading = True, debt_manager.addDialogOpen = False,
       paymentDialogOpen = False, selectedDebt = None,
       newDebt = empty_new_debt, payment = empty_payment \<rparr>"

text \<open>
  The states the debt manager can reach from a store without debts, by the events of
  its page: mounting (which loads the debts), editing the two forms, opening and closing
  the dialogs, submitting either form, choosing a listed debt for a payment, cancelling
  the payment dialog, and deleting a debt. Every event may come with any environment
  (user, clock, parsed input, scheduled failures). The page offers the payment and the
  delete button on the unpaid debts of its list only; here any listed debt and any id
  are allowed, which reaches no fewer states.
\<close>

inductive reachable :: "debt_manager \<Rightarrow> world \<Rightarrow> bool" where
  start: "debts_tbl w = [] \<Longrightarrow> reachable initial_debt_manager w"
| mount: "reachable st w \<Longrightarrow> loadDebts e st w = (st', w') \<Longrightarrow> reachable st' w'"
| edit_new_debt: "reachable st w \<Longrightarrow> reachable (st\<lparr>newDebt := f\<rparr>) w"
| add_dialog: "reachable st w \<Longrightarrow> reachable (st\<lparr>debt_manager.addDialogOpen := b\<rparr>) w"
| submit_add: "reachable st w \<Longrightarrow> handleAddDebt e st w = (st', w') \<Longrightarrow> reachable st' w'"
| choose:
    "reachable st w \<Longrightarrow> d \<in> set (debts st) \<Longrightarrow>
     reachable (st\<lparr>selectedDebt := Some d, paymentDialogOpen := True\<rparr>) w"
| edit_payment: "reachable st w \<Longrightarrow> reachable (st\<lparr>payment := g\<rparr>) w"
| payment_dialog: "reachable st w \<Longrightarrow> reachable (st\<lparr>paymentDialogOpen := b\<rparr>) w"
| cancel_payment:
    "reachable st w \<Longrightarrow>
     reachable (st\<lparr>paymentDialogOpen := False, selectedDebt := None, payment := empty_payment\<rparr>) w"
| submit_payment: "reachable st w \<Longrightarrow> handlePayment e st w = (st', w') \<Longrightarrow> reachable st' w'"
| delete: "reachable st w \<Longrightarrow> deleteDebt e i st w = (st', w') \<Longrightarrow> reachable st' w'"

section \<open>Example inputs\<close>

definition alice :: user where
  "alice = \<lparr> user.id = ''u1'', user.email = ''alice@example.com'', user.displayName = None \<rparr>"

text \<open>
  An environment at 2024-01-01T12:00:00Z whose conversions know the inputs used below;
  the user answers no to every prompt.
\<close>

definition env0 :: env where
  "env0 =
     \<lparr> env.user = Some alice,
       env.now_ms = 1704110400000,
       env.now_iso = ''2024-01-01T12:00:00.000Z'',
       env.random36 = ''0.4fzyo82mvyr'',
       env.parseFloat =
         (\<lambda>s. if s = ''100'' then Some 100 else if s = ''40'' then Some 40
              else if s = ''150'' then Some 150 else if s = ''200'' then Some 200 else None),
       env.date_getTime =
         (\<lambda>s. if s = ''2024-01-08'' then Some 1704672000000
              else if s = ''2024-01-09'' then Some 1704758400000
              else if s = ''2024-01-31'' then Some 1706659200000
              else if s = ''2024-02-01'' then Some 1706745600000
              else if s = ''2023-12-31'' then Some 1703980800000 else None),
       env.toFixed =
         (\<lambda>x n. if x = 40 \<and> n = 2 then ''40.00'' else if x = 100 \<and> n = 2 then ''100.00''
                else if x = 200 \<and> n = 2 then ''200.00'' else ''0''),
       env.toString = (\<lambda>x. if x = 60 then ''60'' else ''61.5''),
       env.confirm = (\<lambda>msg. False) \<rparr>"

definition world0 :: world where
  "world0 =
     \<lparr> debts_tbl = [], debt_payments_tbl = [], user_preferences_tbl = [],
       family_access_tbl = [], faults = [], trace = [] \<rparr>"

definition debt0 :: debt where
  "debt0 =
     \<lparr> debt.id = ''d1'', debt.user_id = ''u1'', debt.type = Owe, debt.person_name = ''Bob'',
       debt.total_amount_cad = 100, debt.total_amount_inr = 6150,
       debt.remaining_amount_cad = 100, debt.remaining_amount_inr = 6150,
       debt.exchange_rate = 61.5, debt.purpose = ''rent'', debt.due_date = None,
       debt.is_paid = ''0'', debt.priority_score = 0,
       debt.created_at = ''2023-12-01T00:00:00.000Z'', debt.updated_at = ''2023-12-01T00:00:00.000Z'' \<rparr>"

text \<open>The payment dialog open on \<open>debt0\<close>, with the given text in the amount field.\<close>

definition paying :: "string \<Rightarrow> debt_manager" where
  "paying txt =
     initial_debt_manager\<lparr> debts := [debt0], selectedDebt := Some debt0, paymentDialogOpen := True,
       payment := \<lparr> payment_form.amount = txt, payment_form.notes = [] \<rparr> \<rparr>"

text \<open>The page listing \<open>debt0\<close>, over a store that holds it.\<close>

definition listing :: debt_manager where
  "listing = initial_debt_manager\<lparr> debts := [debt0], debt_manager.loading := False \<rparr>"

definition world1 :: world where
  "world1 = world0\<lparr> debts_tbl := [debt0] \<rparr>"

text \<open>
  The family page of Alice with one grant listed, over a store that holds the grant, and
  with the given text in the email field of the add dialog.
\<close>

definition grant0 :: family_access where
  "grant0 =
     \<lparr> family_access.id = ''f1'', family_access.owner_user_id = ''u1'',
       family_access.member_email = ''bob@example.com'', family_access.access_level = View,
       family_access.is_active = ''1'', family_access.created_at = ''2023-12-01T00:00:00.000Z'',
       family_access.updated_at = ''2023-12-01T00:00:00.000Z'' \<rparr>"

definition inviting :: "string \<Rightarrow> family_access_page" where
  "inviting txt =
     \<lparr> familyMembers = [grant0], family_access_page.loading = False,
       family_access_page.addDialogOpen = True, newMemberEmail = txt \<rparr>"

definition world2 :: world where
  "world2 = world0\<lparr> family_access_tbl := [grant0] \<rparr>"

text \<open>The settings page as it starts, and a stored preferences record of Alice.\<close>

definition initial_settings :: settings where
  "initial_settings =
     \<lparr> settings.loading = False, isDark = False, preferences = None,
       exchangeRate' = ''61.5'', isUpdatingRate = False \<rparr>"

definition prefs0 :: user_preferences where
  "prefs0 =
     \<lparr> user_preferences.id = ''p1'', user_preferences.user_id = ''u1'',
       user_preferences.default_currency = INR, user_preferences.theme = Dark,
       user_preferences.exchange_rate_cad_to_inr = 60,
       user_preferences.created_at = ''2023-12-01T00:00:00.000Z'',
       user_preferences.updated_at = ''2023-12-01T00:00:00.000Z'' \<rparr>"

definition world3 :: world where
  "world3 = world0\<lparr> user_preferences_tbl := [prefs0] \<rparr>"

definition tx :: "string \<Rightarrow> transaction_type \<Rightarrow> string \<Rightarrow> real \<Rightarrow> transaction" where
  "tx day ty cat a =
     \<lparr> transaction.id = ''t'', transaction.user_id = ''u1'', transaction.type = ty,
       transaction.category = cat, transaction.amount_cad = a, transaction.amount_inr = a * 61.5,
       transaction.exchange_rate = 61.5, transaction.description = [], transaction.date = day,
       transaction.created_at = [], transaction.updated_at = [] \<rparr>"

text \<open>
  The scenario of the spec: the add dialog filled in for a debt of 200 owed to Bob with
  no due date; the debt that submitting it creates; the world after that; and the payment
  dialog then opened on that debt with 200 in the amount field.
\<close>

definition adding :: debt_manager where
  "adding =
     initial_debt_manager\<lparr> debt_manager.addDialogOpen := True,
       newDebt := \<lparr> new_debt_form.type = Owe, new_debt_form.person_name = ''Bob'',
                    new_debt_form.amount = ''200'', new_debt_form.purpose = ''rent'',
                    new_debt_form.due_date = [] \<rparr> \<rparr>"

definition debt200 :: debt where
  "debt200 = new_debt_record env0 alice (newDebt adding) 200"

definition added_world :: world where
  "added_world = snd (handleAddDebt env0 adding world0)"

definition paying_off :: debt_manager where
  "paying_off =
     (fst (handleAddDebt env0 adding world0))\<lparr> selectedDebt := Some debt200, paymentDialogOpen := True,
        payment := \<lparr> payment_form.amount = ''200'', payment_form.notes = [] \<rparr> \<rparr>"

text \<open>
  Transaction lists: the example of the spec's monthly aggregation, with February first;
  a single expense with a negative amount; and expenses in two categories beside an income.
\<close>

definition january :: "transaction list" where
  "january =
     [tx ''2024-02-03'' Income ''Salary'' 50, tx ''2024-01-05'' Income ''Salary'' 100,
      tx ''2024-01-20'' Expense ''Groceries'' 30]"

definition refund :: "transaction list" where
  "refund = [tx ''2024-01-05'' Expense ''Food'' (- 10)]"

definition spending :: "transaction list" where
  "spending =
     [tx ''2024-01-05'' Expense ''Food'' 10, tx ''2024-01-06'' Income ''Salary'' 500,
      tx ''2024-01-07'' Expense ''Travel'' 60, tx ''2024-01-09'' Expense ''Food'' 30]"

section \<open>Properties\<close>

subsection \<open>The gateway operations\<close>

lemmas world_ops = emit_def toast_def console_error_def remote_def

lemma remoteD:
  "remote rq w = (ok, w') \<Longrightarrow>
     ok = first_call_ok w \<and> w' = w\<lparr>faults := tl (faults w), trace := trace w @ [Call rq]\<rparr>"
  by (auto simp: world_ops first_call_ok_def split: list.splits)

lemma db_debt_payments_createD:
  "db_debt_payments_create r w = (ok, w') \<Longrightarrow>
     ok = first_call_ok w \<and> trace w' = trace w @ [Call (Debt_payments_create r)] \<and>
     faults w' = tl (faults w) \<and> debts_tbl w' = debts_tbl w"
  by (auto simp: db_debt_payments_create_def dest!: remoteD split: prod.splits bool.splits)

lemma db_debts_updateD:
  "db_debts_update i d w = (ok, w') \<Longrightarrow>
     ok = first_call_ok w \<and> trace w' = trace w @ [Call (Debts_update i d)] \<and>
     faults w' = tl (faults w) \<and>
     debts_tbl w' = (if ok then map (\<lambda>x. if debt.id x = i then d else x) (debts_tbl w) else debts_tbl w) \<and>
     debt_payments_tbl w' = debt_payments_tbl w"
  by (auto simp: db_debts_update_def dest!: remoteD split: prod.splits bool.splits)

lemma db_debts_createD:
  "db_debts_create d w = (ok, w') \<Longrightarrow>
     ok = first_call_ok w \<and> trace w' = trace w @ [Call (Debts_create d)] \<and>
     faults w' = tl (faults w) \<and>
     debts_tbl w' = (if ok then debts_tbl w @ [d] else debts_tbl w)"
  by (auto simp: db_debts_create_def dest!: remoteD split: prod.splits bool.splits)

lemma db_debts_deleteD:
  "db_debts_delete i w = (ok, w') \<Longrightarrow>
     ok = first_call_ok w \<and> trace w' = trace w @ [Call (Debts_delete i)] \<and>
     faults w' = tl (faults w) \<and>
     debts_tbl w' = (if ok then filter (\<lambda>x. debt.id x \<noteq> i) (debts_tbl w) else debts_tbl w)"
  by (auto simp: db_debts_delete_def dest!: remoteD split: prod.splits bool.splits)

lemma db_debts_listD:
  "db_debts_list uid w = (r, w') \<Longrightarrow>
     trace w' = trace w @ [Call (Debts_list uid)] \<and> faults w' = tl (faults w) \<and>
     debts_tbl w' = debts_tbl w \<and>
     r = (if first_call_ok w
          then Some (rev (sort_key debt.created_at (filter (\<lambda>d. debt.user_id d = uid) (debts_tbl w))))
          else None)"
  by (auto simp: db_debts_list_def dest!: remoteD split: prod.splits bool.splits)

lemma debt_updates_append: "debt_updates (xs @ ys) = debt_updates xs @ debt_updates ys"
  by (induction xs rule: debt_updates.induct) simp_all

lemma debt_creates_append: "debt_creates (xs @ ys) = debt_creates xs @ debt_creates ys"
  by (induction xs rule: debt_creates.induct) simp_all

lemma loadDebts_trace:
  "\<exists>xs. trace (snd (loadDebts e st w)) = trace w @ xs \<and> debt_updates xs = [] \<and> debt_creates xs = []"
  by (auto simp: loadDebts_def loadDebts_failed_def toast_def console_error_def emit_def
      dest!: db_debts_listD split: option.splits prod.splits)

subsection \<open>Recording a payment\<close>

text \<open>
  When the form passes the checks, a user is signed in and the call that stores the payment
  record succeeds, the handler issues exactly one \<^verbatim>\<open>debts.update\<close>, for the selected
  debt's id and with the object \<open>updated_debt\<close> builds.
\<close>

lemma handlePayment_update:
  assumes "selectedDebt st = Some sel" "payment_form.amount (payment st) \<noteq> []"
    "parseFloat e (payment_form.amount (payment st)) = Some p" "0 < p" "p \<le> debt.remaining_amount_cad sel"
    "env.user e = Some u" "first_call_ok w"
  shows "debt_updates (effects_since w (snd (handlePayment e st w))) = [(debt.id sel, updated_debt e sel p)]"
proof -
  obtain ok1 w1 where c: "db_debt_payments_create (payment_record e u sel p (payment st)) w = (ok1, w1)"
    by (cases "db_debt_payments_create (payment_record e u sel p (payment st)) w")
  from db_debt_payments_createD [OF c] assms(7)
  have ok1: "ok1" and t1: "trace w1 = trace w @ [Call (Debt_payments_create (payment_record e u sel p (payment st)))]"
    by simp_all
  obtain ok w2 where u: "db_debts_update (debt.id sel) (updated_debt e sel p) w1 = (ok, w2)"
    by (cases "db_debts_update (debt.id sel) (updated_debt e sel p) w1")
  from db_debts_updateD [OF u]
  have t2: "trace w2 = trace w1 @ [Call (Debts_update (debt.id sel) (updated_debt e sel p))]"
    by simp
  show ?thesis
  proof (cases ok)
    case False
    with assms c u ok1 have "handlePayment e st w = payment_failed st w2"
      by (simp add: handlePayment_def)
    then show ?thesis
      by (simp add: payment_failed_def world_ops t1 t2 effects_since_def)
  next
    case True
    let ?st = "st\<lparr>payment := empty_payment, paymentDialogOpen := False, selectedDebt := None\<rparr>"
    let ?w3 = "toast Default (''Payment of '' @ formatCurrency e p CAD @ '' recorded successfully!'') w2"
    from True assms c u ok1 have h: "handlePayment e st w = loadDebts e ?st ?w3"
      by (simp add: handlePayment_def)
    obtain xs where "trace (snd (loadDebts e ?st ?w3)) = trace ?w3 @ xs" "debt_updates xs = []"
      using loadDebts_trace by blast
    then show ?thesis
      by (simp add: h world_ops t1 t2 effects_since_def debt_updates_append)
  qed
qed

text \<open>
  Whatever the outcome of the remote calls, every \<^verbatim>\<open>debts.update\<close> the handler issues is that
  one: for the selected debt, with an amount that passed the checks.
\<close>

lemma handlePayment_updates:
  assumes "(i, d) \<in> set (debt_updates (effects_since w (snd (handlePayment e st w))))"
  shows "\<exists>sel p. selectedDebt st = Some sel \<and> parseFloat e (payment_form.amount (payment st)) = Some p \<and>
           0 < p \<and> p \<le> debt.remaining_amount_cad sel \<and> i = debt.id sel \<and> d = updated_debt e sel p"
proof (cases "\<exists>sel p u. selectedDebt st = Some sel \<and> payment_form.amount (payment st) \<noteq> [] \<and>
    parseFloat e (payment_form.amount (payment st)) = Some p \<and> 0 < p \<and> p \<le> debt.remaining_amount_cad sel \<and>
    env.user e = Some u \<and> first_call_ok w")
  case True
  then obtain sel p u where c: "selectedDebt st = Some sel" "payment_form.amount (payment st) \<noteq> []"
    "parseFloat e (payment_form.amount (payment st)) = Some p" "0 < p" "p \<le> debt.remaining_amount_cad sel"
    "env.user e = Some u" "first_call_ok w"
    by blast
  from handlePayment_update [OF c] assms c show ?thesis by fastforce
next
  case False
  have "debt_updates (effects_since w (snd (handlePayment e st w))) = []"
    using False
    by (auto simp: handlePayment_def payment_failed_def toast_def console_error_def emit_def
        effects_since_def not_le not_less dest!: db_debt_payments_createD
        split: option.splits if_splits prod.splits bool.splits)
  with assms show ?thesis by simp
qed

text \<open>
  Claim C1. For every debt and every payment amount with \<open>0 < amount\<close> and
  \<open>amount \<le> remaining_amount_cad\<close>, the updated debt that \<open>handlePayment\<close> produces (the one
  it sends to \<^verbatim>\<open>debts.update\<close>, under the selected debt's id) has the old remaining amount
  minus the payment as its remaining amount, the new remaining amount times the exchange
  rate as its remaining secondary amount, and the paid flag \<^verbatim>\<open>'1'\<close> if the new remaining
  amount is \<open>\<le> 0\<close> and \<^verbatim>\<open>'0'\<close> if not. It produces exactly one such debt when a user is
  signed in and the call that stores the payment record succeeds; otherwise it stops
  before the update and produces none.
\<close>

theorem handlePayment_applies:
  assumes "selectedDebt st = Some sel" and "payment_form.amount (payment st) \<noteq> []"
    and "parseFloat e (payment_form.amount (payment st)) = Some p"
    and "0 < p" and "p \<le> debt.remaining_amount_cad sel"
  shows
    "(\<forall>(i, d') \<in> set (debt_updates (effects_since w (snd (handlePayment e st w)))).
        i = debt.id sel \<and>
        debt.remaining_amount_cad d' = debt.remaining_amount_cad sel - p \<and>
        debt.remaining_amount_inr d' = debt.remaining_amount_cad d' * exchangeRate \<and>
        debt.is_paid d' = (if debt.remaining_amount_cad d' \<le> 0 then ''1'' else ''0'')) \<and>
     (env.user e \<noteq> None \<and> first_call_ok w \<longrightarrow>
        (\<exists>d'. debt_updates (effects_since w (snd (handlePayment e st w))) = [(debt.id sel, d')]))"
proof (intro conjI ballI impI)
  fix x assume m: "x \<in> set (debt_updates (effects_since w (snd (handlePayment e st w))))"
  obtain i d' where x: "x = (i, d')"
    by (cases x)
  with m assms have "i = debt.id sel \<and> d' = updated_debt e sel p"
    using handlePayment_updates by fastforce
  then show "case x of (i, d') \<Rightarrow>
        i = debt.id sel \<and>
        debt.remaining_amount_cad d' = debt.remaining_amount_cad sel - p \<and>
        debt.remaining_amount_inr d' = debt.remaining_amount_cad d' * exchangeRate \<and>
        debt.is_paid d' = (if debt.remaining_amount_cad d' \<le> 0 then ''1'' else ''0'')"
    by (simp add: x updated_debt_def Let_def)
next
  assume "env.user e \<noteq> None \<and> first_call_ok w"
  then obtain u where "env.user e = Some u" "first_call_ok w" by blast
  with handlePayment_update [OF assms] 
  show "\<exists>d'. debt_updates (effects_since w (snd (handlePayment e st w))) = [(debt.id sel, d')]"
    by blast
qed

text \<open>A debt with 100 remaining: paying 40 leaves 60, unpaid; paying 100 leaves 0, paid.\<close>

theorem handlePayment_applies_witness:
  "(\<exists>d'. debt_updates (effects_since world0 (snd (handlePayment env0 (paying ''40'') world0))) = [(''d1'', d')] \<and>
      debt.remaining_amount_cad d' = 60 \<and> debt.remaining_amount_inr d' = 3690 \<and> debt.is_paid d' = ''0'') \<and>
   (\<exists>d'. debt_updates (effects_since world0 (snd (handlePayment env0 (paying ''100'') world0))) = [(''d1'', d')] \<and>
      debt.remaining_amount_cad d' = 0 \<and> debt.remaining_amount_inr d' = 0 \<and> debt.is_paid d' = ''1'')"
proof -
  have a: "selectedDebt (paying ''40'') = Some debt0" "payment_form.amount (payment (paying ''40'')) \<noteq> []"
    "parseFloat env0 (payment_form.amount (payment (paying ''40''))) = Some 40"
    "(0::real) < 40" "40 \<le> debt.remaining_amount_cad debt0"
    by (simp_all add: paying_def env0_def debt0_def)
  have b: "selectedDebt (paying ''100'') = Some debt0" "payment_form.amount (payment (paying ''100'')) \<noteq> []"
    "parseFloat env0 (payment_form.amount (payment (paying ''100''))) = Some 100"
    "(0::real) < 100" "100 \<le> debt.remaining_amount_cad debt0"
    by (simp_all add: paying_def env0_def debt0_def)
  have c: "env.user env0 \<noteq> None \<and> first_call_ok world0"
    by (simp add: env0_def world0_def first_call_ok_def)
  show ?thesis
    using handlePayment_applies [OF a, of world0] handlePayment_applies [OF b, of world0] c
    by (auto simp add: debt0_def exchangeRate_def)
qed

text \<open>
  Claim C2. For every debt and every payment amount that is not a positive number (an
  empty field, an unparsable text, zero or a negative number) or that exceeds the debt's
  remaining amount, and also when no debt is selected, \<open>handlePayment\<close> rejects: it shows
  one destructive toast and does nothing else. The component state is returned as it was,
  and the world differs by that toast alone: no remote call is issued, and the debt and
  payment collections are unchanged.
\<close>

theorem handlePayment_rejects:
  assumes "selectedDebt st = None \<or> payment_form.amount (payment st) = [] \<or>
           parseFloat e (payment_form.amount (payment st)) = None \<or>
           (\<exists>sel p. selectedDebt st = Some sel \<and> parseFloat e (payment_form.amount (payment st)) = Some p \<and>
              (p \<le> 0 \<or> debt.remaining_amount_cad sel < p))"
  shows "\<exists>msg. handlePayment e st w = (st, w\<lparr>trace := trace w @ [Toast Destructive msg]\<rparr>)"
  using assms by (auto simp: handlePayment_def toast_def emit_def split: option.splits)

text \<open>A payment of 150 against a remaining amount of 100 is rejected.\<close>

theorem handlePayment_rejects_witness:
  "(\<exists>sel p. selectedDebt (paying ''150'') = Some sel \<and>
       parseFloat env0 (payment_form.amount (payment (paying ''150''))) = Some p \<and>
       (p \<le> 0 \<or> debt.remaining_amount_cad sel < p)) \<and>
   (\<exists>msg. handlePayment env0 (paying ''150'') world0 =
       (paying ''150'', world0\<lparr>trace := trace world0 @ [Toast Destructive msg]\<rparr>))"
proof -
  have h: "\<exists>sel p. selectedDebt (paying ''150'') = Some sel \<and>
       parseFloat env0 (payment_form.amount (payment (paying ''150''))) = Some p \<and>
       (p \<le> 0 \<or> debt.remaining_amount_cad sel < p)"
    by (simp add: paying_def env0_def debt0_def)
  with handlePayment_rejects [of "paying ''150''" env0 world0] show ?thesis
    by blast
qed

text \<open>
  Claim C9. For every debt and every payment amount that passes the checks, the debt that
  \<open>handlePayment\<close> produces differs from the selected debt in \<open>remaining_amount_cad\<close>,
  \<open>remaining_amount_inr\<close>, \<open>is_paid\<close> and \<open>updated_at\<close> at most: its \<open>id\<close>, \<open>user_id\<close>, \<open>type\<close>,
  \<open>person_name\<close>, \<open>total_amount_cad\<close>, \<open>total_amount_inr\<close>, \<open>exchange_rate\<close>, \<open>purpose\<close>,
  \<open>due_date\<close>, \<open>priority_score\<close> and \<open>created_at\<close> are those of the selected debt. (One
  such debt is produced when a user is signed in and the payment record is stored.)
\<close>

theorem handlePayment_frame:
  assumes "selectedDebt st = Some sel" and "payment_form.amount (payment st) \<noteq> []"
    and "parseFloat e (payment_form.amount (payment st)) = Some p"
    and "0 < p" and "p \<le> debt.remaining_amount_cad sel"
  shows
    "(\<forall>(i, d') \<in> set (debt_updates (effects_since w (snd (handlePayment e st w)))).
        debt.id d' = debt.id sel \<and> debt.user_id d' = debt.user_id sel \<and> debt.type d' = debt.type sel \<and>
        debt.person_name d' = debt.person_name sel \<and>
        debt.total_amount_cad d' = debt.total_amount_cad sel \<and>
        debt.total_amount_inr d' = debt.total_amount_inr sel \<and>
        debt.exchange_rate d' = debt.exchange_rate sel \<and> debt.purpose d' = debt.purpose sel \<and>
        debt.due_date d' = debt.due_date sel \<and> debt.priority_score d' = debt.priority_score sel \<and>
        debt.created_at d' = debt.created_at sel) \<and>
     (env.user e \<noteq> None \<and> first_call_ok w \<longrightarrow>
        (\<exists>d'. debt_updates (effects_since w (snd (handlePayment e st w))) = [(debt.id sel, d')]))"
proof (intro conjI ballI impI)
  fix x assume m: "x \<in> set (debt_updates (effects_since w (snd (handlePayment e st w))))"
  obtain i d' where x: "x = (i, d')"
    by (cases x)
  with m assms have "d' = updated_debt e sel p"
    using handlePayment_updates by fastforce
  then show "case x of (i, d') \<Rightarrow>
        debt.id d' = debt.id sel \<and> debt.user_id d' = debt.user_id sel \<and> debt.type d' = debt.type sel \<and>
        debt.person_name d' = debt.person_name sel \<and>
        debt.total_amount_cad d' = debt.total_amount_cad sel \<and>
        debt.total_amount_inr d' = debt.total_amount_inr sel \<and>
        debt.exchange_rate d' = debt.exchange_rate sel \<and> debt.purpose d' = debt.purpose sel \<and>
        debt.due_date d' = debt.due_date sel \<and> debt.priority_score d' = debt.priority_score sel \<and>
        debt.created_at d' = debt.created_at sel"
    by (simp add: x updated_debt_def Let_def)
next
  assume "env.user e \<noteq> None \<and> first_call_ok w"
  then obtain u where "env.user e = Some u" "first_call_ok w" by blast
  with handlePayment_update [OF assms]
  show "\<exists>d'. debt_updates (effects_since w (snd (handlePayment e st w))) = [(debt.id sel, d')]"
    by blast
qed

text \<open>Paying 40 on \<open>debt0\<close>: the debt sent to the store keeps the eleven fields of \<open>debt0\<close>.\<close>

theorem handlePayment_frame_witness:
  "\<exists>d'. debt_updates (effects_since world0 (snd (handlePayment env0 (paying ''40'') world0))) = [(''d1'', d')] \<and>
     debt.id d' = ''d1'' \<and> debt.user_id d' = ''u1'' \<and> debt.type d' = Owe \<and>
     debt.person_name d' = ''Bob'' \<and> debt.total_amount_cad d' = 100 \<and> debt.total_amount_inr d' = 6150 \<and>
     debt.exchange_rate d' = 61.5 \<and> debt.purpose d' = ''rent'' \<and> debt.due_date d' = None \<and>
     debt.priority_score d' = 0 \<and> debt.created_at d' = ''2023-12-01T00:00:00.000Z''"
proof -
  have a: "selectedDebt (paying ''40'') = Some debt0" "payment_form.amount (payment (paying ''40'')) \<noteq> []"
    "parseFloat env0 (payment_form.amount (payment (paying ''40''))) = Some 40"
    "(0::real) < 40" "40 \<le> debt.remaining_amount_cad debt0"
    by (simp_all add: paying_def env0_def debt0_def)
  have c: "env.user env0 \<noteq> None \<and> first_call_ok world0"
    by (simp add: env0_def world0_def first_call_ok_def)
  show ?thesis
    using handlePayment_frame [OF a, of world0] c by (auto simp add: debt0_def)
qed

subsection \<open>The debt invariant\<close>

lemma new_debt_record_invariant: "0 < a \<Longrightarrow> debt_invariant (new_debt_record e u f a)"
  by (simp add: debt_invariant_def new_debt_record_def)

lemma updated_debt_invariant:
  "debt_invariant sel \<Longrightarrow> 0 < p \<Longrightarrow> p \<le> debt.remaining_amount_cad sel \<Longrightarrow>
   debt_invariant (updated_debt e sel p)"
  by (simp add: debt_invariant_def updated_debt_def Let_def)

text \<open>No handler brings a debt into view other than the one it builds.\<close>

lemma loadDebts_known:
  "loadDebts e st w = (st', w') \<Longrightarrow> known_debts st' w' \<subseteq> known_debts st w"
  by (auto simp: loadDebts_def loadDebts_failed_def toast_def console_error_def emit_def known_debts_def
      dest!: db_debts_listD split: option.splits prod.splits if_splits)

lemma deleteDebt_known:
  "deleteDebt e i st w = (st', w') \<Longrightarrow> known_debts st' w' \<subseteq> known_debts st w"
proof -
  assume h: "deleteDebt e i st w = (st', w')"
  obtain ok w1 where d: "db_debts_delete i w = (ok, w1)" by (cases "db_debts_delete i w")
  note D = db_debts_deleteD [OF d]
  show ?thesis
  proof (cases ok)
    case True
    with h d have l: "loadDebts e st (toast Default ''Debt deleted successfully'' w1) = (st', w')"
      by (simp add: deleteDebt_def)
    have "known_debts st (toast Default ''Debt deleted successfully'' w1) \<subseteq> known_debts st w"
      using D True by (auto simp: known_debts_def toast_def emit_def)
    with loadDebts_known [OF l] show ?thesis by blast
  next
    case False
    with h d D show ?thesis
      by (auto simp: deleteDebt_def known_debts_def toast_def console_error_def emit_def)
  qed
qed

lemma handleAddDebt_known:
  assumes "handleAddDebt e st w = (st', w')" "d \<in> known_debts st' w'"
  shows "d \<in> known_debts st w \<or> (\<exists>u a. 0 < a \<and> d = new_debt_record e u (newDebt st) a)"
proof (cases "\<exists>a u. new_debt_form.person_name (newDebt st) \<noteq> [] \<and> new_debt_form.amount (newDebt st) \<noteq> [] \<and>
    new_debt_form.purpose (newDebt st) \<noteq> [] \<and> parseFloat e (new_debt_form.amount (newDebt st)) = Some a \<and> 0 < a \<and> env.user e = Some u")
  case False
  then have "st' = st \<and> debts_tbl w' = debts_tbl w"
    using assms(1)
    by (auto simp: handleAddDebt_def Let_def addDebt_failed_def toast_def console_error_def emit_def
        split: option.splits if_splits)
  with assms(2) show ?thesis by (simp add: known_debts_def)
next
  case True
  then obtain a u where c: "new_debt_form.person_name (newDebt st) \<noteq> []" "new_debt_form.amount (newDebt st) \<noteq> []"
    "new_debt_form.purpose (newDebt st) \<noteq> []" "parseFloat e (new_debt_form.amount (newDebt st)) = Some a" "0 < a" "env.user e = Some u"
    by blast
  obtain ok w1 where cr: "db_debts_create (new_debt_record e u (newDebt st) a) w = (ok, w1)"
    by (cases "db_debts_create (new_debt_record e u (newDebt st) a) w")
  note D = db_debts_createD [OF cr]
  show ?thesis
  proof (cases ok)
    case False
    with assms(1) c cr D have "st' = st \<and> debts_tbl w' = debts_tbl w"
      by (auto simp: handleAddDebt_def Let_def addDebt_failed_def toast_def console_error_def emit_def)
    with assms(2) show ?thesis by (simp add: known_debts_def)
  next
    case True
    let ?st = "st\<lparr>newDebt := empty_new_debt, debt_manager.addDialogOpen := False\<rparr>"
    let ?w = "toast Default ((if new_debt_form.type (newDebt st) = Owe then ''Debt'' else ''Loan'') @ '' added successfully!'') w1"
    from True assms(1) c cr have l: "loadDebts e ?st ?w = (st', w')"
      by (simp add: handleAddDebt_def Let_def)
    from loadDebts_known [OF l] assms(2) have "d \<in> known_debts ?st ?w" by blast
    with D True c(5) show ?thesis
      by (auto simp: known_debts_def toast_def emit_def)
  qed
qed

lemma handlePayment_known:
  assumes "handlePayment e st w = (st', w')" "d \<in> known_debts st' w'"
  shows "d \<in> known_debts st w \<or>
    (\<exists>sel p. selectedDebt st = Some sel \<and> 0 < p \<and> p \<le> debt.remaining_amount_cad sel \<and> d = updated_debt e sel p)"
proof (cases "\<exists>sel p u. selectedDebt st = Some sel \<and> payment_form.amount (payment st) \<noteq> [] \<and>
    parseFloat e (payment_form.amount (payment st)) = Some p \<and> 0 < p \<and> p \<le> debt.remaining_amount_cad sel \<and> env.user e = Some u")
  case False
  then have "st' = st \<and> debts_tbl w' = debts_tbl w"
    using assms(1)
    by (auto simp: handlePayment_def payment_failed_def toast_def console_error_def emit_def
        split: option.splits if_splits)
  with assms(2) show ?thesis by (simp add: known_debts_def)
next
  case True
  then obtain sel p u where c: "selectedDebt st = Some sel" "payment_form.amount (payment st) \<noteq> []"
    "parseFloat e (payment_form.amount (payment st)) = Some p" "0 < p" "p \<le> debt.remaining_amount_cad sel" "env.user e = Some u"
    by blast
  obtain ok1 w1 where cr: "db_debt_payments_create (payment_record e u sel p (payment st)) w = (ok1, w1)"
    by (cases "db_debt_payments_create (payment_record e u sel p (payment st)) w")
  note D1 = db_debt_payments_createD [OF cr]
  obtain ok2 w2 where up: "db_debts_update (debt.id sel) (updated_debt e sel p) w1 = (ok2, w2)"
    by (cases "db_debts_update (debt.id sel) (updated_debt e sel p) w1")
  note D2 = db_debts_updateD [OF up]
  show ?thesis
  proof (cases "ok1 \<and> ok2")
    case False
    with assms(1) c cr up D1 D2 have "st' = st \<and> debts_tbl w' = debts_tbl w"
      by (auto simp: handlePayment_def payment_failed_def toast_def console_error_def emit_def)
    with assms(2) show ?thesis by (simp add: known_debts_def)
  next
    case True
    let ?st = "st\<lparr>payment := empty_payment, paymentDialogOpen := False, selectedDebt := None\<rparr>"
    let ?w = "toast Default (''Payment of '' @ formatCurrency e p CAD @ '' recorded successfully!'') w2"
    from True assms(1) c cr up have l: "loadDebts e ?st ?w = (st', w')"
      by (simp add: handlePayment_def)
    from loadDebts_known [OF l] assms(2) have "d \<in> known_debts ?st ?w" by blast
    with D1 D2 True c show ?thesis
      by (auto simp: known_debts_def toast_def emit_def split: if_splits)
  qed
qed

lemma reachable_invariant:
  "reachable st w \<Longrightarrow> \<forall>d \<in> known_debts st w. debt_invariant d"
proof (induction rule: reachable.induct)
  case (start w)
  then show ?case by (simp add: known_debts_def initial_debt_manager_def)
next
  case (mount st w e st' w')
  then show ?case using loadDebts_known by blast
next
  case (submit_add st w e st' w')
  then show ?case using handleAddDebt_known new_debt_record_invariant by blast
next
  case (submit_payment st w e st' w')
  show ?case
  proof
    fix d assume "d \<in> known_debts st' w'"
    from handlePayment_known [OF submit_payment.hyps(2) this]
    show "debt_invariant d"
      using submit_payment.IH updated_debt_invariant by (auto simp: known_debts_def)
  qed
next
  case (delete st w e i st' w')
  then show ?case using deleteDebt_known by blast
qed (auto simp: known_debts_def)

text \<open>What \<open>handleAddDebt\<close> sends to the gateway, whatever the outcome of the calls.\<close>

lemma handleAddDebt_creates:
  assumes "d \<in> set (debt_creates (effects_since w (snd (handleAddDebt e st w))))"
  shows "\<exists>u a. 0 < a \<and> d = new_debt_record e u (newDebt st) a"
proof (cases "\<exists>a u. new_debt_form.person_name (newDebt st) \<noteq> [] \<and> new_debt_form.amount (newDebt st) \<noteq> [] \<and>
    new_debt_form.purpose (newDebt st) \<noteq> [] \<and> parseFloat e (new_debt_form.amount (newDebt st)) = Some a \<and> 0 < a \<and> env.user e = Some u")
  case False
  then have "debt_creates (effects_since w (snd (handleAddDebt e st w))) = []"
    by (auto simp: handleAddDebt_def Let_def addDebt_failed_def toast_def console_error_def emit_def
        effects_since_def not_le split: option.splits if_splits)
  with assms show ?thesis by simp
next
  case True
  then obtain a u where c: "new_debt_form.person_name (newDebt st) \<noteq> []" "new_debt_form.amount (newDebt st) \<noteq> []"
    "new_debt_form.purpose (newDebt st) \<noteq> []" "parseFloat e (new_debt_form.amount (newDebt st)) = Some a" "0 < a" "env.user e = Some u"
    by blast
  obtain ok w1 where cr: "db_debts_create (new_debt_record e u (newDebt st) a) w = (ok, w1)"
    by (cases "db_debts_create (new_debt_record e u (newDebt st) a) w")
  note D = db_debts_createD [OF cr]
  have "debt_creates (effects_since w (snd (handleAddDebt e st w))) = [new_debt_record e u (newDebt st) a]"
  proof (cases ok)
    case False
    with c cr D show ?thesis
      by (simp add: handleAddDebt_def Let_def addDebt_failed_def toast_def console_error_def emit_def
          effects_since_def)
  next
    case True
    let ?st = "st\<lparr>newDebt := empty_new_debt, debt_manager.addDialogOpen := False\<rparr>"
    let ?w = "toast Default ((if new_debt_form.type (newDebt st) = Owe then ''Debt'' else ''Loan'') @ '' added successfully!'') w1"
    from True c cr have h: "handleAddDebt e st w = loadDebts e ?st ?w"
      by (simp add: handleAddDebt_def Let_def)
    obtain xs where "trace (snd (loadDebts e ?st ?w)) = trace ?w @ xs" "debt_creates xs = []"
      using loadDebts_trace by blast
    with D show ?thesis
      by (simp add: h toast_def emit_def effects_since_def debt_creates_append)
  qed
  with assms c(5) show ?thesis by auto
qed

text \<open>
  Claim C4. Every debt produced by \<open>handleAddDebt\<close> or by \<open>handlePayment\<close> satisfies the
  invariant \<open>0 \<le> remaining_amount_cad \<le> total_amount_cad\<close> with the paid flag true exactly
  when \<open>remaining_amount_cad \<le> 0\<close>. A debt that \<open>handleAddDebt\<close> creates has its remaining
  amount equal to its total, the paid flag \<^verbatim>\<open>'0'\<close> and priority score 0. In every state the
  page can reach from a store without debts, under any schedule of failing remote calls,
  every debt in the store, on the page or selected satisfies the invariant, and so does
  every debt that \<open>handlePayment\<close> sends to the store from there.
\<close>

theorem debt_invariant_holds:
  "(\<forall>d \<in> set (debt_creates (effects_since w (snd (handleAddDebt e st w)))).
      debt_invariant d \<and> debt.remaining_amount_cad d = debt.total_amount_cad d \<and>
      debt.is_paid d = ''0'' \<and> debt.priority_score d = 0) \<and>
   (reachable st w \<longrightarrow>
      (\<forall>d \<in> known_debts st w. debt_invariant d) \<and>
      (\<forall>(i, d) \<in> set (debt_updates (effects_since w (snd (handlePayment e st w)))). debt_invariant d))"
proof (intro conjI ballI impI)
  fix d assume "d \<in> set (debt_creates (effects_since w (snd (handleAddDebt e st w))))"
  then obtain u a where "0 < a" "d = new_debt_record e u (newDebt st) a"
    using handleAddDebt_creates by blast
  then show "debt_invariant d" "debt.remaining_amount_cad d = debt.total_amount_cad d"
    "debt.is_paid d = ''0''" "debt.priority_score d = 0"
    by (simp_all add: new_debt_record_invariant) (simp_all add: new_debt_record_def)
next
  fix d assume "reachable st w" "d \<in> known_debts st w"
  then show "debt_invariant d" using reachable_invariant by blast
next
  fix x assume r: "reachable st w" and x: "x \<in> set (debt_updates (effects_since w (snd (handlePayment e st w))))"
  obtain i d where [simp]: "x = (i, d)" by (cases x)
  from x obtain sel p where "selectedDebt st = Some sel" "0 < p" "p \<le> debt.remaining_amount_cad sel"
    "d = updated_debt e sel p"
    using handlePayment_updates by fastforce
  moreover from this r have "debt_invariant sel"
    using reachable_invariant by (auto simp: known_debts_def)
  ultimately show "case x of (i, d) \<Rightarrow> debt_invariant d"
    by (simp add: updated_debt_invariant)
qed

text \<open>
  The scenario: the created debt of 200 is unpaid with 200 remaining; the state with the
  payment dialog open on it is reachable; paying 200 there produces a debt with nothing
  remaining and the paid flag set.
\<close>

lemma add_run:
  "debts (fst (handleAddDebt env0 adding world0)) = [debt200]"
  "debts_tbl added_world = [debt200]"
  "faults added_world = []"
  "debt_creates (effects_since world0 added_world) = [debt200]"
  by (simp_all add: added_world_def debt200_def handleAddDebt_def adding_def env0_def world0_def alice_def
      db_debts_create_def loadDebts_def db_debts_list_def world_ops initial_debt_manager_def
      new_debt_record_def effects_since_def Let_def)

lemma reachable_paying_off: "reachable paying_off added_world"
proof -
  have "reachable initial_debt_manager world0"
    by (rule reachable.start) (simp add: world0_def)
  then have "reachable (initial_debt_manager\<lparr>debt_manager.addDialogOpen := True\<rparr>) world0"
    by (rule reachable.add_dialog)
  then have "reachable adding world0"
    unfolding adding_def by (rule reachable.edit_new_debt)
  then have r: "reachable (fst (handleAddDebt env0 adding world0)) added_world"
    unfolding added_world_def by (rule reachable.submit_add) simp
  have "debt200 \<in> set (debts (fst (handleAddDebt env0 adding world0)))"
    by (simp add: add_run)
  with r have "reachable ((fst (handleAddDebt env0 adding world0))\<lparr>selectedDebt := Some debt200, paymentDialogOpen := True\<rparr>) added_world"
    by (rule reachable.choose)
  then show ?thesis
    unfolding paying_off_def by (rule reachable.edit_payment)
qed

theorem debt_invariant_holds_witness:
  "reachable paying_off added_world \<and>
   debt_creates (effects_since world0 (snd (handleAddDebt env0 adding world0))) = [debt200] \<and>
   debt_invariant debt200 \<and> debt.remaining_amount_cad debt200 = 200 \<and> debt.total_amount_cad debt200 = 200 \<and>
   debt.is_paid debt200 = ''0'' \<and> debt.priority_score debt200 = 0 \<and>
   debt200 \<in> known_debts paying_off added_world \<and>
   (\<exists>d. debt_updates (effects_since added_world (snd (handlePayment env0 paying_off added_world))) =
          [(debt.id debt200, d)] \<and> debt_invariant d \<and> debt.remaining_amount_cad d = 0 \<and> debt.is_paid d = ''1'')"
proof -
  note r = reachable_paying_off
  have c: "debt_creates (effects_since world0 (snd (handleAddDebt env0 adding world0))) = [debt200]"
    using add_run(4) by (simp add: added_world_def)
  have k: "debt200 \<in> known_debts paying_off added_world"
    by (simp add: known_debts_def add_run)
  have a: "selectedDebt paying_off = Some debt200" "payment_form.amount (payment paying_off) \<noteq> []"
    "parseFloat env0 (payment_form.amount (payment paying_off)) = Some 200"
    "(0::real) < 200" "200 \<le> debt.remaining_amount_cad debt200"
    "env.user env0 = Some alice" "first_call_ok added_world"
    by (simp_all add: paying_off_def env0_def debt200_def new_debt_record_def first_call_ok_def add_run)
  have u: "debt_updates (effects_since added_world (snd (handlePayment env0 paying_off added_world))) =
          [(debt.id debt200, updated_debt env0 debt200 200)]"
    by (rule handlePayment_update [OF a])
  have v: "debt.remaining_amount_cad (updated_debt env0 debt200 200) = 0"
    "debt.is_paid (updated_debt env0 debt200 200) = ''1''"
    "debt.remaining_amount_cad debt200 = 200" "debt.total_amount_cad debt200 = 200"
    by (simp_all add: updated_debt_def debt200_def new_debt_record_def)
  from debt_invariant_holds [where w = world0 and e = env0 and st = adding]
    debt_invariant_holds [where w = added_world and e = env0 and st = paying_off] r c k u v
  show ?thesis by simp
qed

subsection \<open>Family access\<close>

lemma db_family_access_createD:
  "db_family_access_create m w = (ok, w') \<Longrightarrow>
     ok = first_call_ok w \<and> trace w' = trace w @ [Call (Family_access_create m)] \<and>
     faults w' = tl (faults w) \<and>
     family_access_tbl w' = (if ok then family_access_tbl w @ [m] else family_access_tbl w)"
  by (auto simp: db_family_access_create_def dest!: remoteD split: prod.splits bool.splits)

lemma db_family_access_deleteD:
  "db_family_access_delete i w = (ok, w') \<Longrightarrow>
     ok = first_call_ok w \<and> trace w' = trace w @ [Call (Family_access_delete i)] \<and>
     faults w' = tl (faults w)"
  by (auto simp: db_family_access_delete_def dest!: remoteD split: prod.splits bool.splits)

lemma db_family_access_listD:
  "db_family_access_list uid w = (r, w') \<Longrightarrow>
     trace w' = trace w @ [Call (Family_access_list uid)] \<and> faults w' = tl (faults w) \<and>
     family_access_tbl w' = family_access_tbl w"
  by (auto simp: db_family_access_list_def dest!: remoteD split: prod.splits bool.splits)

lemma family_creates_append: "family_creates (xs @ ys) = family_creates xs @ family_creates ys"
  by (induction xs rule: family_creates.induct) simp_all

lemma loadFamilyMembers_trace:
  "\<exists>xs. trace (snd (loadFamilyMembers e st w)) = trace w @ xs \<and> family_creates xs = [] \<and>
     (\<forall>c. deletes_confirmed c xs)"
  by (auto simp: loadFamilyMembers_def loadFamilyMembers_failed_def toast_def console_error_def emit_def
      dest!: db_family_access_listD split: option.splits prod.splits)

text \<open>Whatever \<open>addFamilyMember\<close> sends to \<^verbatim>\<open>family_access.create\<close> is the grant it builds.\<close>

lemma addFamilyMember_creates:
  assumes "g \<in> set (family_creates (effects_since w (snd (addFamilyMember e st w))))"
  shows "\<exists>u. g = new_family_member e u (newMemberEmail st)"
proof (cases "env.user e")
  case None
  then have "family_creates (effects_since w (snd (addFamilyMember e st w))) = []"
    by (auto simp: addFamilyMember_def addFamilyMember_failed_def toast_def console_error_def emit_def
        effects_since_def split: option.splits)
  with assms show ?thesis by simp
next
  case (Some u)
  obtain ok w1 where cr: "db_family_access_create (new_family_member e u (newMemberEmail st)) w = (ok, w1)"
    by (cases "db_family_access_create (new_family_member e u (newMemberEmail st)) w")
  note D = db_family_access_createD [OF cr]
  let ?st = "st\<lparr>newMemberEmail := [], family_access_page.addDialogOpen := False\<rparr>"
  let ?w = "toast Default ''Family member added successfully! They can now view your financial data.'' w1"
  obtain xs where xs: "trace (snd (loadFamilyMembers e ?st ?w)) = trace ?w @ xs" "family_creates xs = []"
    using loadFamilyMembers_trace by blast
  have "set (family_creates (effects_since w (snd (addFamilyMember e st w)))) \<subseteq>
          {new_family_member e u (newMemberEmail st)}"
    using Some cr D xs
    by (cases ok)
       (auto simp: addFamilyMember_def addFamilyMember_failed_def toast_def console_error_def emit_def
        effects_since_def family_creates_append split: option.splits)
  with assms show ?thesis by blast
qed

text \<open>
  Claim C10. For every add-family-member request, the request is rejected when the email
  does not contain \<^verbatim>\<open>@\<close>, equals the signed-in user's own email, or equals the
  \<open>member_email\<close> of a grant already listed: one destructive toast is shown, no remote call
  is issued, and the page state and the store (with the grants) stay as they were. Every
  grant that the handler sends to \<^verbatim>\<open>family_access.create\<close> has access level \<^verbatim>\<open>view\<close> and the
  active flag \<^verbatim>\<open>'1'\<close>.
\<close>

theorem addFamilyMember_guards:
  "(CHR ''@'' \<notin> set (newMemberEmail st) \<or>
    (\<exists>u. env.user e = Some u \<and> newMemberEmail st = user.email u) \<or>
    newMemberEmail st \<in> family_access.member_email ` set (familyMembers st) \<longrightarrow>
      (\<exists>msg. addFamilyMember e st w = (st, w\<lparr>trace := trace w @ [Toast Destructive msg]\<rparr>))) \<and>
   (\<forall>g \<in> set (family_creates (effects_since w (snd (addFamilyMember e st w)))).
      family_access.access_level g = View \<and> family_access.is_active g = ''1'')"
proof (intro conjI impI ballI)
  assume "CHR ''@'' \<notin> set (newMemberEmail st) \<or>
    (\<exists>u. env.user e = Some u \<and> newMemberEmail st = user.email u) \<or>
    newMemberEmail st \<in> family_access.member_email ` set (familyMembers st)"
  then show "\<exists>msg. addFamilyMember e st w = (st, w\<lparr>trace := trace w @ [Toast Destructive msg]\<rparr>)"
    by (auto simp: addFamilyMember_def toast_def emit_def find_None_iff split: option.splits)
next
  fix g assume "g \<in> set (family_creates (effects_since w (snd (addFamilyMember e st w))))"
  then obtain u where "g = new_family_member e u (newMemberEmail st)"
    using addFamilyMember_creates by blast
  then show "family_access.access_level g = View" "family_access.is_active g = ''1''"
    by (simp_all add: new_family_member_def)
qed

text \<open>
  Alice, with a grant for Bob listed: an email without \<^verbatim>\<open>@\<close>, her own email and Bob's
  email are rejected; Carol's email creates one grant, with access level \<^verbatim>\<open>view\<close>, active.
\<close>

theorem addFamilyMember_guards_witness:
  "(\<exists>msg. addFamilyMember env0 (inviting ''carol.example.com'') world2 =
      (inviting ''carol.example.com'', world2\<lparr>trace := trace world2 @ [Toast Destructive msg]\<rparr>)) \<and>
   (\<exists>msg. addFamilyMember env0 (inviting ''alice@example.com'') world2 =
      (inviting ''alice@example.com'', world2\<lparr>trace := trace world2 @ [Toast Destructive msg]\<rparr>)) \<and>
   (\<exists>msg. addFamilyMember env0 (inviting ''bob@example.com'') world2 =
      (inviting ''bob@example.com'', world2\<lparr>trace := trace world2 @ [Toast Destructive msg]\<rparr>)) \<and>
   (\<exists>g. family_creates (effects_since world2 (snd (addFamilyMember env0 (inviting ''carol@example.com'') world2))) = [g] \<and>
      family_access.member_email g = ''carol@example.com'' \<and>
      family_access.access_level g = View \<and> family_access.is_active g = ''1'')"
proof -
  have c: "family_creates (effects_since world2 (snd (addFamilyMember env0 (inviting ''carol@example.com'') world2))) =
     [new_family_member env0 alice ''carol@example.com'']"
    by (simp add: addFamilyMember_def inviting_def env0_def alice_def world2_def world0_def grant0_def
        db_family_access_create_def loadFamilyMembers_def db_family_access_list_def world_ops
        effects_since_def)
  have m: "family_access.member_email (new_family_member env0 alice ''carol@example.com'') = ''carol@example.com''"
    by (simp add: new_family_member_def)
  show ?thesis
    using addFamilyMember_guards [of "inviting ''carol.example.com''" env0 world2]
      addFamilyMember_guards [of "inviting ''alice@example.com''" env0 world2]
      addFamilyMember_guards [of "inviting ''bob@example.com''" env0 world2]
      addFamilyMember_guards [of "inviting ''carol@example.com''" env0 world2] c m
    by (simp add: inviting_def env0_def alice_def grant0_def)
qed

subsection \<open>Deleting\<close>

text \<open>
  \<open>removeFamilyMember\<close> asks first: a delete call it issues comes after a prompt answered with
  yes, and after a no it does nothing but record the prompt.
\<close>

lemma removeFamilyMember_confirmed:
  "deletes_confirmed False (effects_since w (snd (removeFamilyMember e memberId memberEmail st w)))"
proof -
  let ?msg = "''Are you sure you want to remove '' @ memberEmail @ '' from family access?''"
  let ?w0 = "emit (Confirm ?msg (confirm e ?msg)) w"
  show ?thesis
  proof (cases "confirm e ?msg")
    case False
    then show ?thesis
      by (simp add: removeFamilyMember_def Let_def emit_def effects_since_def)
  next
    case True
    obtain ok w1 where d: "db_family_access_delete memberId ?w0 = (ok, w1)"
      by (cases "db_family_access_delete memberId ?w0")
    note D = db_family_access_deleteD [OF d]
    let ?w2 = "toast Default ''Family member removed successfully'' w1"
    obtain xs where xs: "trace (snd (loadFamilyMembers e st ?w2)) = trace ?w2 @ xs" "\<forall>c. deletes_confirmed c xs"
      using loadFamilyMembers_trace by blast
    show ?thesis
      using True d D xs
      by (cases ok)
         (simp_all add: removeFamilyMember_def Let_def emit_def toast_def console_error_def
           effects_since_def)
  qed
qed

lemma removeFamilyMember_declined:
  "\<not> confirm e (''Are you sure you want to remove '' @ memberEmail @ '' from family access?'') \<Longrightarrow>
   removeFamilyMember e memberId memberEmail st w =
     (st, w\<lparr>trace := trace w @ [Confirm (''Are you sure you want to remove '' @ memberEmail @ '' from family access?'') False]\<rparr>)"
  by (simp add: removeFamilyMember_def Let_def emit_def)

text \<open>\<open>deleteDebt\<close> never asks: its delete call is the first thing it does, on every input.\<close>

lemma deleteDebt_never_asks:
  "\<not> deletes_confirmed False (effects_since w (snd (deleteDebt e i st w)))"
proof -
  obtain ok w1 where d: "db_debts_delete i w = (ok, w1)" by (cases "db_debts_delete i w")
  note D = db_debts_deleteD [OF d]
  let ?w2 = "toast Default ''Debt deleted successfully'' w1"
  obtain xs where xs: "trace (snd (loadDebts e st ?w2)) = trace ?w2 @ xs"
    using loadDebts_trace by blast
  show ?thesis
    using d D xs
    by (cases ok)
       (simp_all add: deleteDebt_def emit_def toast_def console_error_def effects_since_def)
qed

text \<open>
  Claim C8. Every delete operation offered to the user (deleting a debt, removing a family
  access grant) issues its remote delete call only after the user has confirmed a local
  prompt. This holds for \<open>removeFamilyMember\<close> and fails for \<open>deleteDebt\<close>: with a user who
  would answer no to every prompt, clicking delete on the listed debt \<open>d1\<close> issues
  \<^verbatim>\<open>debts.delete\<close> at once, with no prompt before it, and the debt is gone from the store.
\<close>

theorem deleteDebt_without_confirmation:
  "confirm env0 = (\<lambda>msg. False) \<and>
   effects_since world1 (snd (deleteDebt env0 ''d1'' listing world1)) =
     [Call (Debts_delete ''d1''), Toast Default ''Debt deleted successfully'', Call (Debts_list ''u1'')] \<and>
   debts_tbl world1 = [debt0] \<and> debts_tbl (snd (deleteDebt env0 ''d1'' listing world1)) = [] \<and>
   \<not> deletes_confirmed False (effects_since world1 (snd (deleteDebt env0 ''d1'' listing world1)))"
  by (simp add: deleteDebt_def db_debts_delete_def loadDebts_def db_debts_list_def world_ops
      effects_since_def env0_def alice_def world1_def world0_def listing_def debt0_def)

subsection \<open>Loading the preferences\<close>

lemma db_user_preferences_listD:
  "db_user_preferences_list uid n w = (r, w') \<Longrightarrow>
     trace w' = trace w @ [Call (User_preferences_list uid)] \<and> faults w' = tl (faults w) \<and>
     user_preferences_tbl w' = user_preferences_tbl w \<and>
     r = (if first_call_ok w
          then Some (take n (filter (\<lambda>p. user_preferences.user_id p = uid) (user_preferences_tbl w)))
          else None)"
  by (auto simp: db_user_preferences_list_def dest!: remoteD split: prod.splits bool.splits)

lemma db_user_preferences_createD:
  "db_user_preferences_create p w = (r, w') \<Longrightarrow>
     trace w' = trace w @ [Call (User_preferences_create p)] \<and> faults w' = tl (faults w) \<and>
     user_preferences_tbl w' = (if first_call_ok w then user_preferences_tbl w @ [p] else user_preferences_tbl w) \<and>
     r = (if first_call_ok w then Some p else None)"
  by (auto simp: db_user_preferences_create_def dest!: remoteD split: prod.splits bool.splits)

text \<open>
  Claim C7. For every user, when the remote calls succeed: loading the preferences while
  the store has no preferences record of that user creates exactly one record, with
  \<open>default_currency = CAD\<close>, \<open>theme = Light\<close> and exchange rate 61.5, and shows it; when a
  record of the user exists, the (first) existing record is shown and no record is created.
\<close>

theorem loadPreferences_creates_or_returns:
  assumes "env.user e = Some u" and "faults w = []"
  shows
    "(filter (\<lambda>p. user_preferences.user_id p = user.id u) (user_preferences_tbl w) = [] \<longrightarrow>
       (\<exists>p. preferences (fst (loadPreferences e st w)) = Some p \<and>
            user_preferences_tbl (snd (loadPreferences e st w)) = user_preferences_tbl w @ [p] \<and>
            preference_creates (effects_since w (snd (loadPreferences e st w))) = [p] \<and>
            user_preferences.user_id p = user.id u \<and>
            user_preferences.default_currency p = CAD \<and> user_preferences.theme p = Light \<and>
            user_preferences.exchange_rate_cad_to_inr p = 61.5)) \<and>
     (\<forall>p ps. filter (\<lambda>p. user_preferences.user_id p = user.id u) (user_preferences_tbl w) = p # ps \<longrightarrow>
        preferences (fst (loadPreferences e st w)) = Some p \<and>
        user_preferences_tbl (snd (loadPreferences e st w)) = user_preferences_tbl w \<and>
        preference_creates (effects_since w (snd (loadPreferences e st w))) = [])"
proof -
  let ?tbl = "filter (\<lambda>p. user_preferences.user_id p = user.id u) (user_preferences_tbl w)"
  obtain r w1 where l: "db_user_preferences_list (user.id u) 1 w = (r, w1)"
    by (cases "db_user_preferences_list (user.id u) 1 w")
  note L = db_user_preferences_listD [OF l]
  have ok: "first_call_ok w" using assms(2) by (simp add: first_call_ok_def)
  have f1: "faults w1 = []" using L assms(2) by simp
  obtain r2 w2 where c: "db_user_preferences_create (defaultPrefs e u) w1 = (r2, w2)"
    by (cases "db_user_preferences_create (defaultPrefs e u) w1")
  note C = db_user_preferences_createD [OF c]
  have ok1: "first_call_ok w1" using f1 by (simp add: first_call_ok_def)
  show ?thesis
  proof (cases ?tbl)
    case Nil
    with assms l L ok c C ok1 show ?thesis
      by (simp add: loadPreferences_def effects_since_def defaultPrefs_def)
  next
    case (Cons p ps)
    with assms l L ok show ?thesis
      by (simp add: loadPreferences_def effects_since_def)
  qed
qed

text \<open>
  Alice over an empty store gets one new record with the defaults; over a store with her
  record \<open>prefs0\<close> she gets \<open>prefs0\<close>, and the store still holds that record alone.
\<close>

theorem loadPreferences_creates_or_returns_witness:
  "(\<exists>p. preferences (fst (loadPreferences env0 initial_settings world0)) = Some p \<and>
        user_preferences_tbl (snd (loadPreferences env0 initial_settings world0)) = [p] \<and>
        preference_creates (effects_since world0 (snd (loadPreferences env0 initial_settings world0))) = [p] \<and>
        user_preferences.user_id p = ''u1'' \<and>
        user_preferences.default_currency p = CAD \<and> user_preferences.theme p = Light \<and>
        user_preferences.exchange_rate_cad_to_inr p = 61.5) \<and>
   preferences (fst (loadPreferences env0 initial_settings world3)) = Some prefs0 \<and>
   user_preferences_tbl (snd (loadPreferences env0 initial_settings world3)) = [prefs0] \<and>
   preference_creates (effects_since world3 (snd (loadPreferences env0 initial_settings world3))) = []"
proof -
  have a: "env.user env0 = Some alice" "faults world0 = []" "faults world3 = []"
    by (simp_all add: env0_def world0_def world3_def)
  have b: "filter (\<lambda>p. user_preferences.user_id p = user.id alice) (user_preferences_tbl world0) = []"
    "filter (\<lambda>p. user_preferences.user_id p = user.id alice) (user_preferences_tbl world3) = prefs0 # []"
    "user_preferences_tbl world0 = []" "user_preferences_tbl world3 = [prefs0]" "user.id alice = ''u1''"
    by (simp_all add: world0_def world3_def alice_def prefs0_def)
  show ?thesis
    using loadPreferences_creates_or_returns [OF a(1,2), of initial_settings]
      loadPreferences_creates_or_returns [OF a(1,3), of initial_settings] b
    by simp
qed

subsection \<open>Monthly aggregation\<close>

text \<open>
  The map after the \<^verbatim>\<open>forEach\<close>: a key is present when some transaction has it or it was
  there before, and its value holds the sums over the transactions with that key.
\<close>

lemma map_of_monthly_step:
  "map_of (monthly_step t m) k =
     (if k = take 7 (transaction.date t)
      then Some \<lparr> month_acc.income =
                    (case map_of m k of Some x \<Rightarrow> month_acc.income x | None \<Rightarrow> 0) +
                    (if transaction.type t = Income then transaction.amount_cad t else 0),
                  month_acc.expenses =
                    (case map_of m k of Some x \<Rightarrow> month_acc.expenses x | None \<Rightarrow> 0) +
                    (if transaction.type t = Expense then transaction.amount_cad t else 0) \<rparr>
      else map_of m k)"
  by (cases "transaction.type t")
     (auto simp: monthly_step_def Let_def update_conv' split: option.splits)

lemma distinct_monthly_step:
  "distinct (map fst m) \<Longrightarrow> distinct (map fst (monthly_step t m))"
  by (simp add: monthly_step_def Let_def distinct_update)

lemma fold_monthly_step_distinct:
  "distinct (map fst m) \<Longrightarrow> distinct (map fst (fold monthly_step ts m))"
  by (induction ts arbitrary: m) (simp_all add: distinct_monthly_step)

lemma fold_monthly_step_lookup:
  "map_of (fold monthly_step ts m) k =
     (if k \<in> (\<lambda>t. take 7 (transaction.date t)) ` set ts \<or> map_of m k \<noteq> None
      then Some \<lparr> month_acc.income =
                    (case map_of m k of Some x \<Rightarrow> month_acc.income x | None \<Rightarrow> 0) +
                    sum_list (map transaction.amount_cad
                      (filter (\<lambda>t. take 7 (transaction.date t) = k \<and> transaction.type t = Income) ts)),
                  month_acc.expenses =
                    (case map_of m k of Some x \<Rightarrow> month_acc.expenses x | None \<Rightarrow> 0) +
                    sum_list (map transaction.amount_cad
                      (filter (\<lambda>t. take 7 (transaction.date t) = k \<and> transaction.type t = Expense) ts)) \<rparr>
      else None)"
proof (induction ts arbitrary: m)
  case Nil
  then show ?case by (auto split: option.splits)
next
  case (Cons t ts)
  show ?case
    by (simp add: Cons.IH map_of_monthly_step)
qed

lemma fold_monthly_step_keys:
  "fst ` set (fold monthly_step ts m) = (\<lambda>t. take 7 (transaction.date t)) ` set ts \<union> fst ` set m"
proof (induction ts arbitrary: m)
  case Nil
  show ?case by simp
next
  case (Cons t ts)
  show ?case
    by (simp add: Cons.IH) (auto simp: monthly_step_def Let_def dom_update)
qed

text \<open>
  Claim C5. For every transaction list, \<open>getMonthlyData\<close> groups by the first 7 characters
  of each transaction's date: the months of the result are sorted ascending and distinct,
  they are exactly the months that occur in the input (no entry for an absent month), and
  each entry holds the sum of the income amounts and the sum of the expense amounts of
  its month, with \<open>net\<close> their difference.
\<close>

theorem getMonthlyData_groups:
  "sorted (map monthly_data.month (getMonthlyData txs)) \<and>
   distinct (map monthly_data.month (getMonthlyData txs)) \<and>
   set (map monthly_data.month (getMonthlyData txs)) = (\<lambda>t. take 7 (transaction.date t)) ` set txs \<and>
   (\<forall>r \<in> set (getMonthlyData txs).
      monthly_data.income r = month_sum txs (monthly_data.month r) Income \<and>
      monthly_data.expenses r = month_sum txs (monthly_data.month r) Expense \<and>
      monthly_data.net r = monthly_data.income r - monthly_data.expenses r)"
proof -
  let ?mk = "\<lambda>(month, data).
               \<lparr> monthly_data.month = month,
                 monthly_data.income = month_acc.income data,
                 monthly_data.expenses = month_acc.expenses data,
                 monthly_data.net = month_acc.income data - month_acc.expenses data \<rparr>"
  let ?m = "fold monthly_step txs []"
  have months: "map monthly_data.month (map ?mk ?m) = map fst ?m"
    by (simp add: comp_def case_prod_beta)
  have d: "distinct (map fst ?m)"
    by (rule fold_monthly_step_distinct) simp
  have s1: "sorted (map monthly_data.month (getMonthlyData txs))"
    by (simp add: getMonthlyData_def)
  have s2: "distinct (map monthly_data.month (getMonthlyData txs))"
  proof -
    from d have "distinct (map monthly_data.month (map ?mk ?m))"
      by (simp only: months)
    then have "distinct (map ?mk ?m) \<and> inj_on monthly_data.month (set (map ?mk ?m))"
      by (simp only: distinct_map)
    then show ?thesis
      unfolding getMonthlyData_def by (simp only: distinct_map distinct_sort set_sort)
  qed
  have s3: "set (map monthly_data.month (getMonthlyData txs)) = (\<lambda>t. take 7 (transaction.date t)) ` set txs"
  proof -
    have "set (map monthly_data.month (getMonthlyData txs)) = set (map monthly_data.month (map ?mk ?m))"
      unfolding getMonthlyData_def by (simp only: set_map set_sort)
    also have "\<dots> = set (map fst ?m)"
      by (simp only: months)
    finally show ?thesis by (simp add: fold_monthly_step_keys)
  qed
  have s4: "monthly_data.income r = month_sum txs (monthly_data.month r) Income \<and>
      monthly_data.expenses r = month_sum txs (monthly_data.month r) Expense \<and>
      monthly_data.net r = monthly_data.income r - monthly_data.expenses r"
    if "r \<in> set (getMonthlyData txs)" for r
  proof -
    from that obtain k data where kd: "(k, data) \<in> set ?m" and r: "r = ?mk (k, data)"
      by (auto simp: getMonthlyData_def)
    from kd d have "map_of ?m k = Some data" by simp
    then have "data = \<lparr> month_acc.income = month_sum txs k Income, month_acc.expenses = month_sum txs k Expense \<rparr>"
      by (simp add: fold_monthly_step_lookup month_sum_def split: if_splits)
    with r show ?thesis by simp
  qed
  from s1 s2 s3 s4 show ?thesis by blast
qed

text \<open>
  The example of the spec: 100 income and 30 expense in January, 50 income in February.
\<close>

theorem getMonthlyData_groups_witness:
  "getMonthlyData january =
     [\<lparr> monthly_data.month = ''2024-01'', monthly_data.income = 100, monthly_data.expenses = 30,
         monthly_data.net = 70 \<rparr>,
      \<lparr> monthly_data.month = ''2024-02'', monthly_data.income = 50, monthly_data.expenses = 0,
         monthly_data.net = 50 \<rparr>] \<and>
   sorted (map monthly_data.month (getMonthlyData january)) \<and>
   distinct (map monthly_data.month (getMonthlyData january)) \<and>
   set (map monthly_data.month (getMonthlyData january)) = {''2024-01'', ''2024-02''} \<and>
   month_sum january ''2024-01'' Income = 100 \<and> month_sum january ''2024-01'' Expense = 30 \<and>
   month_sum january ''2024-02'' Income = 50 \<and> month_sum january ''2024-02'' Expense = 0"
proof -
  have e: "getMonthlyData january =
     [\<lparr> monthly_data.month = ''2024-01'', monthly_data.income = 100, monthly_data.expenses = 30,
         monthly_data.net = 70 \<rparr>,
      \<lparr> monthly_data.month = ''2024-02'', monthly_data.income = 50, monthly_data.expenses = 0,
         monthly_data.net = 50 \<rparr>]"
    by (simp add: getMonthlyData_def january_def tx_def monthly_step_def Let_def)
  have k: "(\<lambda>t. take 7 (transaction.date t)) ` set january = {''2024-01'', ''2024-02''}"
    by (auto simp: january_def tx_def)
  show ?thesis
    using getMonthlyData_groups [of january] by (simp add: e k)
qed

subsection \<open>Category aggregation\<close>

lemma foldl_amounts: "foldl (\<lambda>sum t. sum + transaction.amount_cad t) a ts = a + sum_list (map transaction.amount_cad ts)"
  by (induction ts arbitrary: a) simp_all

lemma map_of_category_step:
  "map_of (category_step t m) k =
     (if k = transaction.category t
      then Some \<lparr> category_acc.amount =
                    (case map_of m k of Some x \<Rightarrow> category_acc.amount x | None \<Rightarrow> 0) + transaction.amount_cad t,
                  category_acc.count =
                    (case map_of m k of Some x \<Rightarrow> category_acc.count x | None \<Rightarrow> 0) + 1 \<rparr>
      else map_of m k)"
  by (auto simp: category_step_def Let_def update_conv' split: option.splits)

lemma fold_category_step_distinct:
  "distinct (map fst m) \<Longrightarrow> distinct (map fst (fold category_step ts m))"
  by (induction ts arbitrary: m) (simp_all add: category_step_def Let_def distinct_update)

lemma fold_category_step_keys:
  "fst ` set (fold category_step ts m) = transaction.category ` set ts \<union> fst ` set m"
proof (induction ts arbitrary: m)
  case Nil
  show ?case by simp
next
  case (Cons t ts)
  show ?case
    by (simp add: Cons.IH) (auto simp: category_step_def Let_def dom_update)
qed

lemma fold_category_step_lookup:
  "map_of (fold category_step ts m) k =
     (if k \<in> transaction.category ` set ts \<or> map_of m k \<noteq> None
      then Some \<lparr> category_acc.amount =
                    (case map_of m k of Some x \<Rightarrow> category_acc.amount x | None \<Rightarrow> 0) +
                    sum_list (map transaction.amount_cad (filter (\<lambda>t. transaction.category t = k) ts)),
                  category_acc.count =
                    (case map_of m k of Some x \<Rightarrow> category_acc.count x | None \<Rightarrow> 0) +
                    length (filter (\<lambda>t. transaction.category t = k) ts) \<rparr>
      else None)"
proof (induction ts arbitrary: m)
  case Nil
  then show ?case by (auto split: option.splits)
next
  case (Cons t ts)
  show ?case
    by (simp add: Cons.IH map_of_category_step)
qed

text \<open>
  Claim C6, as the spec states it, sets a category's percentage to
  \<open>amount / totalOfType * 100\<close>, and to 0 when the total of the type is 0. The code
  guards with \<^verbatim>\<open>totalAmount > 0\<close>, so a negative total gives 0 as well: for a single
  expense of \<open>- 10\<close> the total is \<open>- 10\<close>, not 0, the quotient is 100, and the percentage
  computed is 0.
\<close>

theorem getCategoryData_negative_total:
  "getCategoryData refund Expense =
     [\<lparr> category_data.category = ''Food'', category_data.amount = - 10,
         category_data.percentage = 0, category_data.transactions = 1 \<rparr>] \<and>
   total_of_type refund Expense = - 10 \<and>
   total_of_type refund Expense \<noteq> 0 \<and>
   category_data.amount (hd (getCategoryData refund Expense)) / total_of_type refund Expense * 100 = 100 \<and>
   category_data.percentage (hd (getCategoryData refund Expense)) \<noteq>
     category_data.amount (hd (getCategoryData refund Expense)) / total_of_type refund Expense * 100"
  by (simp add: getCategoryData_def refund_def tx_def category_step_def total_of_type_def Let_def)

text \<open>
  Claim C6, amended. For every transaction list and type, \<open>getCategoryData\<close> groups the
  transactions of that type by category: the categories of the result are distinct and are
  exactly the categories of the transactions of the type; each entry holds the sum of the
  amounts and the number of the transactions of its category; its percentage is
  \<open>amount / totalOfType * 100\<close> when the total of the type is positive and 0 otherwise; the
  result is sorted descending by amount; and an empty input list gives an empty result.
\<close>

theorem getCategoryData_groups:
  "distinct (map category_data.category (getCategoryData txs ty)) \<and>
   set (map category_data.category (getCategoryData txs ty)) =
     transaction.category ` {t \<in> set txs. transaction.type t = ty} \<and>
   (\<forall>c \<in> set (getCategoryData txs ty).
      category_data.amount c = category_sum txs ty (category_data.category c) \<and>
      category_data.transactions c = category_count txs ty (category_data.category c) \<and>
      category_data.percentage c =
        (if total_of_type txs ty > 0 then category_data.amount c / total_of_type txs ty * 100 else 0)) \<and>
   sorted_wrt (\<lambda>a b. category_data.amount a \<ge> category_data.amount b) (getCategoryData txs ty) \<and>
   getCategoryData [] ty = []"
proof -
  let ?T = "filter (\<lambda>t. transaction.type t = ty) txs"
  let ?total = "foldl (\<lambda>sum t. sum + transaction.amount_cad t) 0 ?T"
  let ?mk = "\<lambda>(category, data).
                   \<lparr> category_data.category = category,
                     category_data.amount = category_acc.amount data,
                     category_data.percentage =
                       (if ?total > 0 then (category_acc.amount data / ?total) * 100 else 0),
                     category_data.transactions = category_acc.count data \<rparr>"
  let ?m = "fold category_step ?T []"
  have g: "getCategoryData txs ty = sort_key (\<lambda>c. - category_data.amount c) (map ?mk ?m)"
    by (simp add: getCategoryData_def Let_def)
  have tot: "?total = total_of_type txs ty"
    by (simp add: foldl_amounts total_of_type_def)
  have cats: "map category_data.category (map ?mk ?m) = map fst ?m"
    by (simp add: comp_def case_prod_beta)
  have d: "distinct (map fst ?m)"
    by (rule fold_category_step_distinct) simp
  have s1: "distinct (map category_data.category (getCategoryData txs ty))"
  proof -
    from d have "distinct (map category_data.category (map ?mk ?m))"
      by (simp only: cats)
    then have "distinct (map ?mk ?m) \<and> inj_on category_data.category (set (map ?mk ?m))"
      by (simp only: distinct_map)
    then show ?thesis
      unfolding g by (simp only: distinct_map distinct_sort set_sort)
  qed
  have s2: "set (map category_data.category (getCategoryData txs ty)) =
     transaction.category ` {t \<in> set txs. transaction.type t = ty}"
  proof -
    have "set (map category_data.category (getCategoryData txs ty)) = set (map category_data.category (map ?mk ?m))"
      unfolding g by (simp only: set_map set_sort)
    also have "\<dots> = set (map fst ?m)"
      by (simp only: cats)
    finally show ?thesis by (simp add: fold_category_step_keys)
  qed
  have s3: "category_data.amount c = category_sum txs ty (category_data.category c) \<and>
      category_data.transactions c = category_count txs ty (category_data.category c) \<and>
      category_data.percentage c =
        (if total_of_type txs ty > 0 then category_data.amount c / total_of_type txs ty * 100 else 0)"
    if "c \<in> set (getCategoryData txs ty)" for c
  proof -
    from that obtain k data where kd: "(k, data) \<in> set ?m" and c: "c = ?mk (k, data)"
      unfolding g by auto
    from kd d have "map_of ?m k = Some data" by simp
    then have "data = \<lparr> category_acc.amount = category_sum txs ty k, category_acc.count = category_count txs ty k \<rparr>"
      by (simp add: fold_category_step_lookup category_sum_def category_count_def filter_filter conj_commute
          split: if_splits)
    with c tot show ?thesis by simp
  qed
  have s4: "sorted_wrt (\<lambda>a b. category_data.amount a \<ge> category_data.amount b) (getCategoryData txs ty)"
  proof -
    have "sorted (map (\<lambda>c. - category_data.amount c) (getCategoryData txs ty))"
      unfolding g by (rule sorted_sort_key)
    then show ?thesis by (simp add: sorted_map)
  qed
  have s5: "getCategoryData [] ty = []"
    by (simp add: getCategoryData_def)
  from s1 s2 s3 s4 s5 show ?thesis by blast
qed

text \<open>
  Expenses of 10 and 30 on food and 60 on travel, beside an income: travel comes first
  with 60 percent, food second with 40 percent of the total of 100.
\<close>

theorem getCategoryData_groups_witness:
  "getCategoryData spending Expense =
     [\<lparr> category_data.category = ''Travel'', category_data.amount = 60,
         category_data.percentage = 60, category_data.transactions = 1 \<rparr>,
      \<lparr> category_data.category = ''Food'', category_data.amount = 40,
         category_data.percentage = 40, category_data.transactions = 2 \<rparr>] \<and>
   total_of_type spending Expense = 100 \<and>
   category_sum spending Expense ''Travel'' = 60 \<and> category_count spending Expense ''Travel'' = 1 \<and>
   category_sum spending Expense ''Food'' = 40 \<and> category_count spending Expense ''Food'' = 2 \<and>
   distinct (map category_data.category (getCategoryData spending Expense)) \<and>
   sorted_wrt (\<lambda>a b. category_data.amount a \<ge> category_data.amount b) (getCategoryData spending Expense)"
proof -
  have e: "getCategoryData spending Expense =
     [\<lparr> category_data.category = ''Travel'', category_data.amount = 60,
         category_data.percentage = 60, category_data.transactions = 1 \<rparr>,
      \<lparr> category_data.category = ''Food'', category_data.amount = 40,
         category_data.percentage = 40, category_data.transactions = 2 \<rparr>]"
    by (simp add: getCategoryData_def spending_def tx_def category_step_def Let_def)
  have t: "total_of_type spending Expense = 100"
    by (simp add: total_of_type_def spending_def tx_def)
  show ?thesis
    using getCategoryData_groups [of spending Expense] by (simp add: e t)
qed

subsection \<open>Urgency classification\<close>

lemma getPriorityLevel_days:
  assumes "debt.due_date d = Some s" and "s \<noteq> []" and "date_getTime e s = Some due"
  shows "getDaysUntilDue e s = Some \<lceil>real_of_int (due - now_ms e) / 86400000\<rceil>"
    and "getPriorityLevel e d =
           (let n = \<lceil>real_of_int (due - now_ms e) / 86400000\<rceil>
            in if n < 0 then Overdue else if n \<le> 7 then Urgent else if n \<le> 30 then Medium else Low)"
  using assms by (simp_all add: getPriorityLevel_def getDaysUntilDue_def Let_def)

text \<open>
  Claim C3. For every debt and every current time, \<open>getPriorityLevel\<close> returns \<open>Low\<close> when
  the debt has no due date. Otherwise, with \<open>daysUntilDue\<close> the ceiling of the difference
  between the due date and the current time in days, it returns \<open>Overdue\<close> when
  \<open>daysUntilDue < 0\<close>, \<open>Urgent\<close> when \<open>0 \<le> daysUntilDue \<le> 7\<close>, \<open>Medium\<close> when
  \<open>8 \<le> daysUntilDue \<le> 30\<close> and \<open>Low\<close> otherwise; exactly 7 days is urgent and exactly 30
  days is medium. A due date that is empty or does not parse has no day count and is
  \<open>Low\<close> as well.
\<close>

theorem getPriorityLevel_bands:
  "(debt.due_date d = None \<longrightarrow> getPriorityLevel e d = Low) \<and>
   (\<forall>s. debt.due_date d = Some s \<and> (s = [] \<or> date_getTime e s = None) \<longrightarrow> getPriorityLevel e d = Low) \<and>
   (\<forall>s due. debt.due_date d = Some s \<and> s \<noteq> [] \<and> date_getTime e s = Some due \<longrightarrow>
      (let daysUntilDue = \<lceil>real_of_int (due - now_ms e) / 86400000\<rceil> in
         getDaysUntilDue e s = Some daysUntilDue \<and>
         (daysUntilDue < 0 \<longrightarrow> getPriorityLevel e d = Overdue) \<and>
         (0 \<le> daysUntilDue \<and> daysUntilDue \<le> 7 \<longrightarrow> getPriorityLevel e d = Urgent) \<and>
         (8 \<le> daysUntilDue \<and> daysUntilDue \<le> 30 \<longrightarrow> getPriorityLevel e d = Medium) \<and>
         (30 < daysUntilDue \<longrightarrow> getPriorityLevel e d = Low)) \<and>
      (due - now_ms e = 7 * 86400000 \<longrightarrow> getPriorityLevel e d = Urgent) \<and>
      (due - now_ms e = 30 * 86400000 \<longrightarrow> getPriorityLevel e d = Medium))"
proof (intro conjI allI impI)
  assume "debt.due_date d = None"
  then show "getPriorityLevel e d = Low"
    by (simp add: getPriorityLevel_def)
next
  fix s assume "debt.due_date d = Some s \<and> (s = [] \<or> date_getTime e s = None)"
  then show "getPriorityLevel e d = Low"
    by (auto simp: getPriorityLevel_def getDaysUntilDue_def)
next
  fix s due assume a: "debt.due_date d = Some s \<and> s \<noteq> [] \<and> date_getTime e s = Some due"
  then have days: "getDaysUntilDue e s = Some \<lceil>real_of_int (due - now_ms e) / 86400000\<rceil>"
    and level: "getPriorityLevel e d =
           (let n = \<lceil>real_of_int (due - now_ms e) / 86400000\<rceil>
            in if n < 0 then Overdue else if n \<le> 7 then Urgent else if n \<le> 30 then Medium else Low)"
    using getPriorityLevel_days [of d s e due] by simp_all
  show "let daysUntilDue = \<lceil>real_of_int (due - now_ms e) / 86400000\<rceil> in
         getDaysUntilDue e s = Some daysUntilDue \<and>
         (daysUntilDue < 0 \<longrightarrow> getPriorityLevel e d = Overdue) \<and>
         (0 \<le> daysUntilDue \<and> daysUntilDue \<le> 7 \<longrightarrow> getPriorityLevel e d = Urgent) \<and>
         (8 \<le> daysUntilDue \<and> daysUntilDue \<le> 30 \<longrightarrow> getPriorityLevel e d = Medium) \<and>
         (30 < daysUntilDue \<longrightarrow> getPriorityLevel e d = Low)"
    using days level by (simp add: Let_def)
  {
    assume "due - now_ms e = 7 * 86400000"
    then show "getPriorityLevel e d = Urgent"
      by (simp add: level)
  }
  {
    assume "due - now_ms e = 30 * 86400000"
    then show "getPriorityLevel e d = Medium"
      by (simp add: level)
  }
qed

text \<open>
  At noon of 2024-01-01: no due date, an empty one and an unparsable one are low; the day
  before is overdue, a week later is urgent, 8 and 30 days later are medium, 31 days
  later is low.
\<close>

theorem getPriorityLevel_bands_witness:
  "getPriorityLevel env0 debt0 = Low \<and>
   getPriorityLevel env0 (debt0\<lparr>debt.due_date := Some []\<rparr>) = Low \<and>
   getPriorityLevel env0 (debt0\<lparr>debt.due_date := Some ''someday''\<rparr>) = Low \<and>
   getPriorityLevel env0 (debt0\<lparr>debt.due_date := Some ''2023-12-31''\<rparr>) = Overdue \<and>
   getPriorityLevel env0 (debt0\<lparr>debt.due_date := Some ''2024-01-08''\<rparr>) = Urgent \<and>
   getPriorityLevel env0 (debt0\<lparr>debt.due_date := Some ''2024-01-09''\<rparr>) = Medium \<and>
   getPriorityLevel env0 (debt0\<lparr>debt.due_date := Some ''2024-01-31''\<rparr>) = Medium \<and>
   getPriorityLevel env0 (debt0\<lparr>debt.due_date := Some ''2024-02-01''\<rparr>) = Low"
  using getPriorityLevel_bands [of debt0 env0]
    getPriorityLevel_bands [of "debt0\<lparr>debt.due_date := Some []\<rparr>" env0]
    getPriorityLevel_bands [of "debt0\<lparr>debt.due_date := Some ''someday''\<rparr>" env0]
    getPriorityLevel_bands [of "debt0\<lparr>debt.due_date := Some ''2023-12-31''\<rparr>" env0]
    getPriorityLevel_bands [of "debt0\<lparr>debt.due_date := Some ''2024-01-08''\<rparr>" env0]
    getPriorityLevel_bands [of "debt0\<lparr>debt.due_date := Some ''2024-01-09''\<rparr>" env0]
    getPriorityLevel_bands [of "debt0\<lparr>debt.due_date := Some ''2024-01-31''\<rparr>" env0]
    getPriorityLevel_bands [of "debt0\<lparr>debt.due_date := Some ''2024-02-01''\<rparr>" env0]
  by (simp add: env0_def debt0_def)

end
